theory Spec2Isabelle
  imports Main
begin

section \<open>Strings of the call list\<close>

text \<open>
  A JavaScript string is modelled as a \<^typ>\<open>string\<close>, one \<^typ>\<open>char\<close> per code unit
  below 256. The three character classes the source relies on are written out for that
  range: \<^verbatim>\<open>\w\<close> of the regular expression, the line terminators that \<^verbatim>\<open>.\<close> does
  not match, and the white space removed by \<^verbatim>\<open>String.prototype.trim\<close>.
\<close>

definition is_word_char :: "char \<Rightarrow> bool" where
  "is_word_char c =
     (let n = (of_char c :: nat)
      in (48 \<le> n \<and> n \<le> 57) \<or> (65 \<le> n \<and> n \<le> 90) \<or> (97 \<le> n \<and> n \<le> 122) \<or> n = 95)"

definition is_line_terminator :: "char \<Rightarrow> bool" where
  "is_line_terminator c = (c = CHR 0x0A \<or> c = CHR 0x0D)"

definition is_white_space :: "char \<Rightarrow> bool" where
  "is_white_space c =
     (c \<in> {CHR 0x09, CHR 0x0A, CHR 0x0B, CHR 0x0C, CHR 0x0D, CHR 0x20, CHR 0xA0})"

text \<open>\<^verbatim>\<open>arg.trim()\<close>: white space is removed at both ends.\<close>

definition trim :: "string \<Rightarrow> string" where
  "trim s = rev (dropWhile is_white_space (rev (dropWhile is_white_space s)))"

text \<open>
  \<^verbatim>\<open>call[2].split(",")\<close>: the pieces between commas, empty pieces included; the
  empty string splits into one empty piece.
\<close>

fun split_comma :: "string \<Rightarrow> string list" where
  "split_comma [] = [[]]"
| "split_comma (c # cs) =
     (if c = CHR '','' then [] # split_comma cs
      else (case split_comma cs of [] \<Rightarrow> [[c]] | x # xs \<Rightarrow> (c # x) # xs))"

section \<open>The call parser (page.tsx, second effect)\<close>

text \<open>
  \<^verbatim>\<open>line.match(/(\w+)\((.*)\)/)\<close>. The expression is not anchored, so the engine
  tries every start position from the left and returns the first match.

  At one start position: \<^verbatim>\<open>\w+\<close> is greedy and takes the whole run of word
  characters (giving some back cannot help, the next character would be a word character
  and not the parenthesis); then comes \<^verbatim>\<open>(\<close>; the greedy \<^verbatim>\<open>.*\<close> runs to the
  next line terminator and backtracks to the last \<^verbatim>\<open>)\<close> of that stretch.
\<close>

definition upto_last_paren :: "string \<Rightarrow> string option" where
  "upto_last_paren body =
     (case dropWhile (\<lambda>c. c \<noteq> CHR '')'') (rev body) of
        [] \<Rightarrow> None
      | _ # r \<Rightarrow> Some (rev r))"

definition call_match_at :: "string \<Rightarrow> (string \<times> string) option" where
  "call_match_at s =
     (let w = takeWhile is_word_char s; rest = dropWhile is_word_char s
      in if w = [] then None
         else (case rest of
                 [] \<Rightarrow> None
               | c # r \<Rightarrow>
                   if c = CHR ''(''
                   then map_option (\<lambda>a. (w, a))
                          (upto_last_paren (takeWhile (\<lambda>c. \<not> is_line_terminator c) r))
                   else None))"

fun call_match :: "string \<Rightarrow> (string \<times> string) option" where
  "call_match [] = None"
| "call_match (c # cs) =
     (case call_match_at (c # cs) of
        Some m \<Rightarrow> Some m
      | None \<Rightarrow> call_match cs)"

record parsed_call =
  name :: string
  args :: "string list"

definition call_args :: "string \<Rightarrow> string list" where
  "call_args a = filter (\<lambda>arg. arg \<noteq> []) (map trim (split_comma a))"

text \<open>The body of the \<^verbatim>\<open>forEach\<close>: a matching line pushes one call, any other line none.\<close>

definition push_line :: "parsed_call list \<Rightarrow> string \<Rightarrow> parsed_call list" where
  "push_line calls line =
     (case call_match line of
        None \<Rightarrow> calls
      | Some (n, a) \<Rightarrow> calls @ [\<lparr>name = n, args = call_args a\<rparr>])"

definition parse_calls :: "string list \<Rightarrow> parsed_call list" where
  "parse_calls functionCalls = foldl push_line [] functionCalls"

text \<open>
  The two parts of a line of the form \<open>name(args)\<close>: a name is a run of word characters
  that is not empty, and the text between the parentheses holds no line terminator.
\<close>

definition is_identifier :: "string \<Rightarrow> bool" where
  "is_identifier n = (n \<noteq> [] \<and> list_all is_word_char n)"

definition single_line :: "string \<Rightarrow> bool" where
  "single_line a = list_all (\<lambda>c. \<not> is_line_terminator c) a"

section \<open>Data exchanged with the two services (page.tsx)\<close>

datatype errorType = Error | Warning

record solc_details =
  line :: "nat option"
  column :: "nat option"
  codeSnippet :: "string option"

record SolcError =
  errorType :: errorType
  message :: string
  details :: solc_details

record ContractData =
  contract_name :: string
  contract_abi :: string
  contract_bytecode :: string

record SolcCompileResponse =
  data :: "ContractData list"
  errors :: "SolcError list"

record raw_log =
  address :: string
  topics :: "string list"
  log_data :: string

record 't ExecutionResponse =
  exitReason :: string
  reverted :: bool
  exec_result :: string
  exec_gasUsed :: string
  exec_logs :: "raw_log list"
  exec_traces :: 't

record EncodedCall =
  calldata :: string
  "value" :: string
  caller :: string

record ExecutionRequest =
  req_bytecode :: string
  req_calls :: "EncodedCall list"

text \<open>
  A decoded event as \<^verbatim>\<open>decodeEventLog\<close> returns it: the arguments are an array when
  the event's parameters are unnamed, an object keyed by name when they are named, and
  absent when the event has no parameters.
\<close>

datatype 'v event_args = NoArgs | Positional "'v list" | Named "(string \<times> 'v) list"

record 'v DecodedLog =
  eventName :: string
  event_args :: "'v event_args"

text \<open>One entry of the result list, as \<^verbatim>\<open>ResultDisplay\<close> reads it.\<close>

record ('v, 't) FunctionCallResult =
  call :: string
  gasUsed :: string
  response :: "string option"
  logs :: "'v DecodedLog list option"
  rawLogs :: "raw_log list option"
  traces :: 't

section \<open>Exceptions and the console\<close>

text \<open>
  The failures of the ABI codec, named as the specification names them. The body of an
  error response of the service is either unusable (reading its \<^verbatim>\<open>message\<close>
  throws) or an object whose \<^verbatim>\<open>message\<close> may be missing.
\<close>

datatype codec_error = UnknownFunction | ArgumentEncodingError | DecodeFailure

datatype error_data = NoData | Data "string option"

datatype thrown =
    AxiosError "error_data option"
  | SyntaxError
  | TypeError
  | CodecError codec_error

datatype console_entry = ConsoleLog string | ConsoleError string thrown

section \<open>The external codec\<close>

text \<open>
  \<^verbatim>\<open>JSON.parse\<close>, \<^verbatim>\<open>String\<close> and the three functions imported from the ABI
  library are not part of the repository. They are parameters of the model: \<open>'d\<close> is
  the type of one descriptor of the interface, \<open>'v\<close> the type of a decoded value. A
  function that throws returns \<open>Inl\<close>; \<^verbatim>\<open>decodeFunctionResult\<close> returns
  \<^verbatim>\<open>undefined\<close> (here \<open>None\<close>) for a function without outputs.
\<close>

record ('d, 'v) codec =
  JSON_parse :: "string \<Rightarrow> 'd list option"
  encodeFunctionData :: "'d list \<Rightarrow> string \<Rightarrow> string list \<Rightarrow> codec_error + string"
  decodeFunctionResult :: "'d list \<Rightarrow> string \<Rightarrow> string \<Rightarrow> codec_error + 'v option"
  decodeEventLog :: "'d list \<Rightarrow> string \<Rightarrow> string list \<Rightarrow> codec_error + 'v DecodedLog"
  String_of :: "'v \<Rightarrow> string"

section \<open>The state of the page\<close>

text \<open>
  The six \<^verbatim>\<open>useState\<close> cells of \<^verbatim>\<open>IndexPage\<close> and the console.
  \<open>functionCalls_ref\<close> stands for the identity of the array held in
  \<open>functionCalls\<close>: the dependency list of an effect compares arrays by reference, and
  every \<^verbatim>\<open>setFunctionCalls\<close> of the source installs a fresh array.
\<close>

record ('d, 'v, 't) page =
  solidityCode :: string
  functionCalls :: "string list"
  functionCalls_ref :: nat
  bytecode :: string
  abi :: "'d list"
  result :: "('v, 't) FunctionCallResult list"
  compilationErrors :: "SolcError list"
  console :: "console_entry list"

definition defaultSolidityCode :: string where
  "defaultSolidityCode = concat (map (\<lambda>l. CHR 0x0A # l)
     [''contract SimpleStorage {'',
      ''    uint256 public storedData;'',
      ''    event StoredDataUpdated(uint);'',
      [],
      ''    function set(uint256 x) public {'',
      ''        storedData = x;'',
      ''        emit StoredDataUpdated(x);'',
      ''    }'',
      [],
      ''    function get() public view returns (uint256) {'',
      ''        return storedData;'',
      ''    }'',
      [],
      ''    function getBlockNumber() public view returns (uint256) {'',
      ''      return block.number;'',
      ''  }'',
      ''}'']) @ [CHR 0x0A]"

definition initial_page :: "('d, 'v, 't) page" where
  "initial_page =
     \<lparr>solidityCode = defaultSolidityCode,
      functionCalls = [''get()'', ''set(1)'', ''get()'', ''getBlockNumber()''],
      functionCalls_ref = 0,
      bytecode = [],
      abi = [],
      result = [],
      compilationErrors = [],
      console = []\<rparr>"

section \<open>The compile lane (page.tsx, first effect)\<close>

definition updatedCode :: "string \<Rightarrow> string" where
  "updatedCode src = ''pragma solidity 0.8.26;'' @ [CHR 0x0A] @ src"

datatype compile_outcome = Resolved SolcCompileResponse | Rejected thrown

text \<open>
  The diagnostic built in the \<^verbatim>\<open>catch\<close>:
  \<^verbatim>\<open>message: axiosError.response.data.message || "Unknown error occurred"\<close>; a
  missing and an empty message are both falsy.
\<close>

definition synthesized_error :: "string option \<Rightarrow> SolcError" where
  "synthesized_error m =
     \<lparr>errorType = Error,
      message = (case m of
                   None \<Rightarrow> ''Unknown error occurred''
                 | Some x \<Rightarrow> if x = [] then ''Unknown error occurred'' else x),
      details = \<lparr>line = None, column = None, codeSnippet = None\<rparr>\<rparr>"

text \<open>
  An exception that leaves an \<^verbatim>\<open>async\<close> function rejects the promise the
  function returned. Nothing in the source files keeps the promise of
  \<^verbatim>\<open>compileSolidity\<close> or of \<^verbatim>\<open>handleFunctionCalls\<close>, so the rejection is
  unhandled and the host reports it on the console; the page does nothing else with it.
\<close>

definition report_unhandled :: "thrown \<Rightarrow> ('d, 'v, 't) page \<Rightarrow> ('d, 'v, 't) page" where
  "report_unhandled t s = s\<lparr>console := console s @ [ConsoleError ''Uncaught (in promise)'' t]\<rparr>"

text \<open>
  The \<^verbatim>\<open>catch\<close> block of \<^verbatim>\<open>compileSolidity\<close>. The diagnostics are written only
  for an Axios error that carries a response; with an unusable body the read of
  \<^verbatim>\<open>message\<close> throws inside the \<^verbatim>\<open>catch\<close> and nothing is written.
\<close>

definition compile_catch :: "thrown \<Rightarrow> ('d, 'v, 't) page \<Rightarrow> ('d, 'v, 't) page" where
  "compile_catch t s =
     (let s1 = s\<lparr>console := console s @ [ConsoleError ''Compilation error:'' t]\<rparr>
      in case t of
           AxiosError (Some (Data m)) \<Rightarrow> s1\<lparr>compilationErrors := [synthesized_error m]\<rparr>
         | AxiosError (Some NoData) \<Rightarrow> report_unhandled TypeError s1
         | _ \<Rightarrow> s1)"

text \<open>
  The continuation of \<^verbatim>\<open>compileSolidity\<close> after the \<^verbatim>\<open>await\<close>.
  \<^verbatim>\<open>setBytecode\<close> runs before \<^verbatim>\<open>JSON.parse\<close>, so a description that does not
  parse leaves the new bytecode in place and enters the \<^verbatim>\<open>catch\<close>.
\<close>

definition compileSolidity_settle ::
  "('d, 'v) codec \<Rightarrow> compile_outcome \<Rightarrow> ('d, 'v, 't) page \<Rightarrow> ('d, 'v, 't) page" where
  "compileSolidity_settle C outcome s =
     (case outcome of
        Rejected t \<Rightarrow> compile_catch t s
      | Resolved r \<Rightarrow>
          if length (data r) > 0
          then (let lastContract = last (data r);
                    s1 = s\<lparr>bytecode := contract_bytecode lastContract\<rparr>
                in case JSON_parse C (contract_abi lastContract) of
                     None \<Rightarrow> compile_catch SyntaxError s1
                   | Some a \<Rightarrow> s1\<lparr>abi := a, compilationErrors := errors r\<rparr>)
          else s\<lparr>compilationErrors := errors r\<rparr>)"

section \<open>Handlers of the call list\<close>

definition addFunctionCall :: "('d, 'v, 't) page \<Rightarrow> ('d, 'v, 't) page" where
  "addFunctionCall s =
     s\<lparr>functionCalls := functionCalls s @ [[]],
       functionCalls_ref := Suc (functionCalls_ref s)\<rparr>"

text \<open>\<^verbatim>\<open>xs.splice(index, 1)\<close> for an index that is not negative.\<close>

definition splice1 :: "nat \<Rightarrow> 'a list \<Rightarrow> 'a list" where
  "splice1 index xs = take index xs @ drop (Suc index) xs"

text \<open>
  \<^verbatim>\<open>newCalls[index] = v\<close>. Past the end JavaScript extends the array and leaves
  holes; a hole is written as the empty line here, which the parsing loop skips as it
  skips a hole.
\<close>

definition assign_at :: "nat \<Rightarrow> string \<Rightarrow> string list \<Rightarrow> string list" where
  "assign_at index v xs =
     (if index < length xs then xs[index := v]
      else xs @ replicate (index - length xs) [] @ [v])"

text \<open>
  React calls the function given to a state setter once in a production build and
  twice in a development build under StrictMode, each time with the same previous
  state; what the function does besides returning happens on every call.
\<close>

datatype react_build = Production | StrictDevelopment

fun updater_runs :: "react_build \<Rightarrow> nat" where
  "updater_runs Production = Suc 0"
| "updater_runs StrictDevelopment = Suc (Suc 0)"

text \<open>
  The function that \<^verbatim>\<open>handleFunctionCallsChange(e, index)\<close> gives to
  \<^verbatim>\<open>setFunctionCalls\<close>, run on the previous call list and on the held result array:
  \<open>None\<close> is the \<^verbatim>\<open>null\<close> event of a deletion, \<open>Some v\<close> an edit whose
  \<^verbatim>\<open>e.target.value\<close> is \<open>v\<close>. The first component is the call list it returns. The
  second is the held result array after the call: the deletion splices that array in
  place, inside the function.
\<close>

definition change_updater ::
  "string option \<Rightarrow> nat \<Rightarrow> string list \<Rightarrow> 'r list \<Rightarrow> string list \<times> 'r list" where
  "change_updater e index prev held =
     (case e of
        None \<Rightarrow> (splice1 index prev, splice1 index held)
      | Some v \<Rightarrow> (assign_at index v prev, held))"

text \<open>
  \<^verbatim>\<open>handleFunctionCallsChange(e, index)\<close>: the call list becomes what the function
  returns for the previous call list, and the held result array has gone through as many
  calls of the function as the build makes.
\<close>

definition handleFunctionCallsChange ::
  "react_build \<Rightarrow> string option \<Rightarrow> nat \<Rightarrow> ('d, 'v, 't) page \<Rightarrow> ('d, 'v, 't) page" where
  "handleFunctionCallsChange build e index s =
     s\<lparr>functionCalls := fst (change_updater e index (functionCalls s) (result s)),
       functionCalls_ref := Suc (functionCalls_ref s),
       result :=
         ((\<lambda>held. snd (change_updater e index (functionCalls s) held)) ^^ updater_runs build)
           (result s)\<rparr>"

section \<open>The execution lane (page.tsx, second effect)\<close>

text \<open>
  The effect body: \<open>Some calls\<close> when it hands \<open>calls\<close> to
  \<^verbatim>\<open>debouncedHandleFunctionCalls\<close>, \<open>None\<close> when it does not. An empty string is
  falsy, so \<^verbatim>\<open>bytecode &&\<close> asks for a bytecode that is not empty.
\<close>

definition execution_effect :: "('d, 'v, 't) page \<Rightarrow> parsed_call list option" where
  "execution_effect s =
     (let calls = parse_calls (functionCalls s)
      in if bytecode s \<noteq> [] \<and> length calls > 0 then Some calls else None)"

text \<open>
  The dependency list \<^verbatim>\<open>[bytecode, functionCalls]\<close>: after a render the effect runs
  again when the bytecode string differs or the array is another object.
\<close>

definition deps_changed :: "('d, 'v, 't) page \<Rightarrow> ('d, 'v, 't) page \<Rightarrow> bool" where
  "deps_changed prev cur =
     (bytecode prev \<noteq> bytecode cur \<or> functionCalls_ref prev \<noteq> functionCalls_ref cur)"

definition execution_lane ::
  "('d, 'v, 't) page \<Rightarrow> ('d, 'v, 't) page \<Rightarrow> parsed_call list option" where
  "execution_lane prev cur = (if deps_changed prev cur then execution_effect cur else None)"

section \<open>handleFunctionCalls\<close>

definition zero_address :: string where
  "zero_address = ''0x0000000000000000000000000000000000000000''"

text \<open>The encoding loop; the first call that the encoder rejects ends it.\<close>

fun encode_calls ::
  "('d, 'v) codec \<Rightarrow> 'd list \<Rightarrow> parsed_call list \<Rightarrow> codec_error + EncodedCall list" where
  "encode_calls C abi0 [] = Inr []"
| "encode_calls C abi0 (c # cs) =
     (case encodeFunctionData C abi0 (name c) (args c) of
        Inl e \<Rightarrow> Inl e
      | Inr cd \<Rightarrow>
          (case encode_calls C abi0 cs of
             Inl e \<Rightarrow> Inl e
           | Inr calls \<Rightarrow> Inr (\<lparr>calldata = cd, value = ''0'', caller = zero_address\<rparr> # calls)))"

text \<open>
  The part of \<^verbatim>\<open>handleFunctionCalls\<close> before the \<^verbatim>\<open>await\<close>. The encoding loop
  stands outside the \<^verbatim>\<open>try\<close>: an encoder failure leaves the function as the
  rejection of its promise, which nothing in the page handles.
\<close>

datatype start_outcome = Skipped | Uncaught thrown | Posted ExecutionRequest

definition handleFunctionCalls_start ::
  "('d, 'v) codec \<Rightarrow> parsed_call list \<Rightarrow> ('d, 'v, 't) page \<Rightarrow>
     start_outcome \<times> ('d, 'v, 't) page" where
  "handleFunctionCalls_start C parsedCalls s =
     (if length (abi s) = 0 then (Skipped, s)
      else (let s1 = s\<lparr>console := console s @ [ConsoleLog ''in handle function calls'']\<rparr>
            in case encode_calls C (abi s) parsedCalls of
                 Inl e \<Rightarrow> (Uncaught (CodecError e), s1)
               | Inr calls \<Rightarrow> (Posted \<lparr>req_bytecode = bytecode s, req_calls = calls\<rparr>, s1)))"

text \<open>The inner loop over \<^verbatim>\<open>result.logs\<close>.\<close>

fun decode_logs ::
  "('d, 'v) codec \<Rightarrow> 'd list \<Rightarrow> raw_log list \<Rightarrow> thrown + 'v DecodedLog list" where
  "decode_logs C abi0 [] = Inr []"
| "decode_logs C abi0 (l # ls) =
     (case decodeEventLog C abi0 (log_data l) (topics l) of
        Inl e \<Rightarrow> Inl (CodecError e)
      | Inr d \<Rightarrow>
          (case decode_logs C abi0 ls of
             Inl e \<Rightarrow> Inl e
           | Inr ds \<Rightarrow> Inr (d # ds)))"

text \<open>
  One round of the loop \<^verbatim>\<open>for (const i in results)\<close>. Reading
  \<^verbatim>\<open>parsedCalls[i].name\<close> past the end of \<^verbatim>\<open>parsedCalls\<close> throws a TypeError.
\<close>

definition decode_result ::
  "('d, 'v) codec \<Rightarrow> 'd list \<Rightarrow> parsed_call list \<Rightarrow> nat \<Rightarrow> 't ExecutionResponse \<Rightarrow>
     thrown + ('v, 't) FunctionCallResult" where
  "decode_result C abi0 parsedCalls i r =
     (if i < length parsedCalls
      then (case decodeFunctionResult C abi0 (name (parsedCalls ! i)) (exec_result r) of
              Inl e \<Rightarrow> Inl (CodecError e)
            | Inr returned \<Rightarrow>
                (case decode_logs C abi0 (exec_logs r) of
                   Inl e \<Rightarrow> Inl e
                 | Inr ls \<Rightarrow>
                     Inr \<lparr>call = name (parsedCalls ! i),
                          gasUsed = exec_gasUsed r,
                          response = map_option (String_of C) returned,
                          logs = Some ls,
                          rawLogs = None,
                          traces = exec_traces r\<rparr>))
      else Inl TypeError)"

fun decode_results ::
  "('d, 'v) codec \<Rightarrow> 'd list \<Rightarrow> parsed_call list \<Rightarrow> nat \<Rightarrow> 't ExecutionResponse list \<Rightarrow>
     thrown + ('v, 't) FunctionCallResult list" where
  "decode_results C abi0 parsedCalls i [] = Inr []"
| "decode_results C abi0 parsedCalls i (r # rs) =
     (case decode_result C abi0 parsedCalls i r of
        Inl e \<Rightarrow> Inl e
      | Inr out \<Rightarrow>
          (case decode_results C abi0 parsedCalls (Suc i) rs of
             Inl e \<Rightarrow> Inl e
           | Inr outs \<Rightarrow> Inr (out # outs)))"

datatype 't exec_outcome = ExecResolved "'t ExecutionResponse list" | ExecRejected thrown

text \<open>
  The part of \<^verbatim>\<open>handleFunctionCalls\<close> after the \<^verbatim>\<open>await\<close>, with the
  \<^verbatim>\<open>abi\<close> and \<^verbatim>\<open>parsedCalls\<close> the call started with. One \<^verbatim>\<open>try\<close> encloses
  the request and the whole decoding loop; \<^verbatim>\<open>setResult\<close> is its last statement.
\<close>

definition handleFunctionCalls_settle ::
  "('d, 'v) codec \<Rightarrow> 'd list \<Rightarrow> parsed_call list \<Rightarrow> 't exec_outcome \<Rightarrow>
     ('d, 'v, 't) page \<Rightarrow> ('d, 'v, 't) page" where
  "handleFunctionCalls_settle C abi0 parsedCalls outcome s =
     (case (case outcome of
              ExecRejected t \<Rightarrow> Inl t
            | ExecResolved results \<Rightarrow> decode_results C abi0 parsedCalls 0 results) of
        Inl e \<Rightarrow> s\<lparr>console := console s @ [ConsoleError ''Execution error:'' e]\<rparr>
      | Inr output \<Rightarrow> s\<lparr>result := output\<rparr>)"

section \<open>The log section of ResultDisplay\<close>

fun join_comma :: "string list \<Rightarrow> string" where
  "join_comma [] = []"
| "join_comma [x] = x"
| "join_comma (x # y # ys) = x @ '', '' @ join_comma (y # ys)"

datatype log_view = DecodedView string string | RawView string "string list" string

definition args_text :: "('d, 'v) codec \<Rightarrow> 'v event_args \<Rightarrow> string" where
  "args_text C a =
     (case a of
        Positional vs \<Rightarrow> join_comma (map (String_of C) vs)
      | Named kvs \<Rightarrow> join_comma (map (\<lambda>(k, v). k @ '': '' @ String_of C v) kvs)
      | NoArgs \<Rightarrow> [])"

text \<open>
  \<^verbatim>\<open>result.logs?.map(...)\<close> followed by \<^verbatim>\<open>!result.logs && result.rawLogs.map(...)\<close>:
  the raw logs are shown only when \<^verbatim>\<open>logs\<close> is absent (an empty array is truthy).
\<close>

definition ResultDisplay_logs ::
  "('d, 'v) codec \<Rightarrow> ('v, 't) FunctionCallResult \<Rightarrow> thrown + log_view list" where
  "ResultDisplay_logs C r =
     (case logs r of
        Some ls \<Rightarrow> Inr (map (\<lambda>l. DecodedView (eventName l) (args_text C (event_args l))) ls)
      | None \<Rightarrow>
          (case rawLogs r of
             Some rs \<Rightarrow> Inr (map (\<lambda>l. RawView (address l) (topics l) (log_data l)) rs)
           | None \<Rightarrow> Inl TypeError))"

section \<open>Requests in flight\<close>

text \<open>
  The page together with what is pending outside it: the timer of the compile effect, with
  the source text its closure holds, and the requests posted by each lane, numbered in
  the order of posting. The numbering is bookkeeping of the model only: the source keeps
  no such number, and no field of it is read when a response is applied.

  An execution request is recorded with the interface and the parsed calls its
  continuation will decode with. The debounce hook is not part of the source files, so
  the moment at which the debounced handler runs is an event of its own, carrying the
  calls it was given.
\<close>

record ('d, 'v, 't) system =
  page_of :: "('d, 'v, 't) page"
  compile_timer :: "string option"
  compile_posted :: "string list"
  compile_settled :: "nat list"
  exec_posted :: "('d list \<times> parsed_call list \<times> ExecutionRequest) list"
  exec_settled :: "nat list"

datatype 't event =
    SetSolidityCode string
  | CompileTimerFires
  | CompileSettles nat compile_outcome
  | HandleFunctionCalls "parsed_call list"
  | ExecSettles nat "'t exec_outcome"

definition compile_in_flight :: "nat \<Rightarrow> ('d, 'v, 't) system \<Rightarrow> bool" where
  "compile_in_flight k S = (k < length (compile_posted S) \<and> k \<notin> set (compile_settled S))"

definition exec_in_flight :: "nat \<Rightarrow> ('d, 'v, 't) system \<Rightarrow> bool" where
  "exec_in_flight k S = (k < length (exec_posted S) \<and> k \<notin> set (exec_settled S))"

text \<open>A request is superseded once a later request of its lane has been posted.\<close>

definition compile_superseded :: "nat \<Rightarrow> ('d, 'v, 't) system \<Rightarrow> bool" where
  "compile_superseded k S = (Suc k < length (compile_posted S))"

definition exec_superseded :: "nat \<Rightarrow> ('d, 'v, 't) system \<Rightarrow> bool" where
  "exec_superseded k S = (Suc k < length (exec_posted S))"

text \<open>
  \<^item> \<open>SetSolidityCode\<close>: the editor writes the source text. When the text differs, the
    first effect runs again: its cleanup clears the pending timer and a new timer is set.
  \<^item> \<open>CompileTimerFires\<close>: the pending timer runs \<^verbatim>\<open>compileSolidity\<close>, which posts
    the request.
  \<^item> \<open>CompileSettles k\<close>: the request numbered \<open>k\<close> settles and the continuation runs.
  \<^item> \<open>HandleFunctionCalls\<close>: the debounced handler runs up to its \<^verbatim>\<open>await\<close>,
    or to the exception that ends it.
  \<^item> \<open>ExecSettles k\<close>: the execution request numbered \<open>k\<close> settles.
\<close>

definition step ::
  "('d, 'v) codec \<Rightarrow> 't event \<Rightarrow> ('d, 'v, 't) system \<Rightarrow> ('d, 'v, 't) system" where
  "step C ev S =
     (case ev of
        SetSolidityCode src \<Rightarrow>
          if src = solidityCode (page_of S) then S
          else S\<lparr>page_of := (page_of S)\<lparr>solidityCode := src\<rparr>, compile_timer := Some src\<rparr>
      | CompileTimerFires \<Rightarrow>
          (case compile_timer S of
             None \<Rightarrow> S
           | Some src \<Rightarrow>
               S\<lparr>compile_timer := None,
                 compile_posted := compile_posted S @ [updatedCode src]\<rparr>)
      | CompileSettles k outcome \<Rightarrow>
          if compile_in_flight k S
          then S\<lparr>page_of := compileSolidity_settle C outcome (page_of S),
                 compile_settled := k # compile_settled S\<rparr>
          else S
      | HandleFunctionCalls parsedCalls \<Rightarrow>
          (case handleFunctionCalls_start C parsedCalls (page_of S) of
             (Skipped, s1) \<Rightarrow> S\<lparr>page_of := s1\<rparr>
           | (Uncaught t, s1) \<Rightarrow> S\<lparr>page_of := report_unhandled t s1\<rparr>
           | (Posted req, s1) \<Rightarrow>
               S\<lparr>page_of := s1,
                 exec_posted := exec_posted S @ [(abi (page_of S), parsedCalls, req)]\<rparr>)
      | ExecSettles k outcome \<Rightarrow>
          if exec_in_flight k S
          then (case exec_posted S ! k of
                  (abi0, parsedCalls, req) \<Rightarrow>
                    S\<lparr>page_of := handleFunctionCalls_settle C abi0 parsedCalls outcome (page_of S),
                      exec_settled := k # exec_settled S\<rparr>)
          else S)"

definition run ::
  "('d, 'v) codec \<Rightarrow> 't event list \<Rightarrow> ('d, 'v, 't) system \<Rightarrow> ('d, 'v, 't) system" where
  "run C evs S = foldl (\<lambda>S' ev. step C ev S') S evs"

text \<open>After mounting: both effects have run once; the bytecode is empty, so only the
  compile timer is pending.\<close>

definition mounted :: "('d, 'v, 't) system" where
  "mounted =
     \<lparr>page_of = initial_page,
      compile_timer = Some defaultSolidityCode,
      compile_posted = [],
      compile_settled = [],
      exec_posted = [],
      exec_settled = []\<rparr>"

section \<open>Every write to the page, as seen by the second effect\<close>

datatype ('d, 't) page_write =
    WriteSolidityCode string
  | WriteAddFunctionCall
  | WriteFunctionCallsChange react_build "string option" nat
  | WriteCompileSettled compile_outcome
  | WriteExecStarted "parsed_call list"
  | WriteExecSettled "'d list" "parsed_call list" "'t exec_outcome"

definition apply_write ::
  "('d, 'v) codec \<Rightarrow> ('d, 't) page_write \<Rightarrow> ('d, 'v, 't) page \<Rightarrow> ('d, 'v, 't) page" where
  "apply_write C w s =
     (case w of
        WriteSolidityCode src \<Rightarrow> s\<lparr>solidityCode := src\<rparr>
      | WriteAddFunctionCall \<Rightarrow> addFunctionCall s
      | WriteFunctionCallsChange build e index \<Rightarrow> handleFunctionCallsChange build e index s
      | WriteCompileSettled outcome \<Rightarrow> compileSolidity_settle C outcome s
      | WriteExecStarted parsedCalls \<Rightarrow> snd (handleFunctionCalls_start C parsedCalls s)
      | WriteExecSettled abi0 parsedCalls outcome \<Rightarrow>
          handleFunctionCalls_settle C abi0 parsedCalls outcome s)"

text \<open>
  The writes that call \<^verbatim>\<open>setFunctionCalls\<close>, and the write that may call
  \<^verbatim>\<open>setBytecode\<close>.
\<close>

fun call_list_write :: "('d, 't) page_write \<Rightarrow> bool" where
  "call_list_write WriteAddFunctionCall = True"
| "call_list_write (WriteFunctionCallsChange build e index) = True"
| "call_list_write w = False"

fun compile_write :: "('d, 't) page_write \<Rightarrow> bool" where
  "compile_write (WriteCompileSettled outcome) = True"
| "compile_write w = False"

section \<open>Responses that differ in their status fields only\<close>

definition same_but_status :: "'t ExecutionResponse \<Rightarrow> 't ExecutionResponse \<Rightarrow> bool" where
  "same_but_status r r' =
     (exec_result r' = exec_result r \<and> exec_gasUsed r' = exec_gasUsed r \<and>
      exec_logs r' = exec_logs r \<and> exec_traces r' = exec_traces r)"

section \<open>A sample codec for concrete runs\<close>

text \<open>
  Concrete runs of the model need some codec. This one stands in for the external
  library on a toy interface format and fails where the library throws: an unknown
  function name, a wrong number of arguments, empty return data for a function that has
  outputs, and a log whose first topic belongs to no event of the interface.
\<close>

datatype abi_item = AbiFunction string nat bool | AbiEvent string string

fun find_function :: "string \<Rightarrow> abi_item list \<Rightarrow> (nat \<times> bool) option" where
  "find_function n [] = None"
| "find_function n (AbiFunction m k out # items) =
     (if m = n then Some (k, out) else find_function n items)"
| "find_function n (AbiEvent m t # items) = find_function n items"

fun find_event :: "string \<Rightarrow> abi_item list \<Rightarrow> string option" where
  "find_event t [] = None"
| "find_event t (AbiFunction m k out # items) = find_event t items"
| "find_event t (AbiEvent m t' # items) = (if t' = t then Some m else find_event t items)"

definition simple_storage_abi :: "abi_item list" where
  "simple_storage_abi =
     [AbiFunction ''storedData'' 0 True,
      AbiEvent ''StoredDataUpdated'' ''0xfeed'',
      AbiFunction ''set'' 1 False,
      AbiFunction ''get'' 0 True,
      AbiFunction ''getBlockNumber'' 0 True]"

definition sample_codec :: "(abi_item, string) codec" where
  "sample_codec =
     \<lparr>JSON_parse = (\<lambda>s. if s = ''SimpleStorage'' then Some simple_storage_abi
                         else if s = ''[]'' then Some [] else None),
      encodeFunctionData = (\<lambda>abi0 n xs.
         case find_function n abi0 of
           None \<Rightarrow> Inl UnknownFunction
         | Some (k, out) \<Rightarrow>
             if length xs = k then Inr (n @ concat xs) else Inl ArgumentEncodingError),
      decodeFunctionResult = (\<lambda>abi0 n d.
         case find_function n abi0 of
           None \<Rightarrow> Inl UnknownFunction
         | Some (k, out) \<Rightarrow>
             if \<not> out then Inr None
             else if d = ''0x'' then Inl DecodeFailure
             else Inr (Some d)),
      decodeEventLog = (\<lambda>abi0 d ts.
         case ts of
           [] \<Rightarrow> Inl DecodeFailure
         | t # _ \<Rightarrow>
             (case find_event t abi0 of
                None \<Rightarrow> Inl DecodeFailure
              | Some m \<Rightarrow> Inr \<lparr>eventName = m, event_args = Positional [d]\<rparr>)),
      String_of = (\<lambda>v. v)\<rparr>"

section \<open>Sample inputs\<close>

definition sample_page :: "(abi_item, string, unit) page" where
  "sample_page = initial_page"

definition warning_unused :: SolcError where
  "warning_unused =
     \<lparr>errorType = Warning, message = ''Unused local variable.'',
      details = \<lparr>line = Some 4, column = Some 9, codeSnippet = None\<rparr>\<rparr>"

definition two_units :: SolcCompileResponse where
  "two_units =
     \<lparr>data =
        [\<lparr>contract_name = ''Helper'', contract_abi = ''[]'', contract_bytecode = ''0x6001''\<rparr>,
         \<lparr>contract_name = ''SimpleStorage'', contract_abi = ''SimpleStorage'',
          contract_bytecode = ''0x6002''\<rparr>],
      errors = [warning_unused]\<rparr>"

definition display_get :: "(string, unit) FunctionCallResult" where
  "display_get =
     \<lparr>call = ''get'', gasUsed = ''2402'', response = Some ''0x01'', logs = Some [],
      rawLogs = None, traces = ()\<rparr>"

definition display_set :: "(string, unit) FunctionCallResult" where
  "display_set =
     \<lparr>call = ''set'', gasUsed = ''43724'', response = None,
      logs = Some [\<lparr>eventName = ''StoredDataUpdated'', event_args = Positional [''0x01'']\<rparr>],
      rawLogs = None, traces = ()\<rparr>"

definition deployed_page :: "(abi_item, string, unit) page" where
  "deployed_page =
     sample_page\<lparr>functionCalls := [''get()'', ''set(1)'', ''get()''],
                 bytecode := ''0x6002'',
                 abi := simple_storage_abi,
                 result := [display_get, display_set, display_get],
                 compilationErrors := [warning_unused]\<rparr>"

definition compiled_page :: "(abi_item, string, unit) page" where
  "compiled_page = sample_page\<lparr>bytecode := ''0x6002'', abi := simple_storage_abi\<rparr>"

definition call_get :: parsed_call where
  "call_get = \<lparr>name = ''get'', args = []\<rparr>"

definition call_set :: parsed_call where
  "call_set = \<lparr>name = ''set'', args = [''1'']\<rparr>"

definition call_unknown :: parsed_call where
  "call_unknown = \<lparr>name = ''reset'', args = []\<rparr>"

definition response_get :: "unit ExecutionResponse" where
  "response_get =
     \<lparr>exitReason = ''Return'', reverted = False, exec_result = ''0x01'',
      exec_gasUsed = ''2402'', exec_logs = [], exec_traces = ()\<rparr>"

definition response_set :: "unit ExecutionResponse" where
  "response_set =
     \<lparr>exitReason = ''Stop'', reverted = False, exec_result = ''0x'',
      exec_gasUsed = ''43724'',
      exec_logs = [\<lparr>address = ''0xc0de'', topics = [''0xfeed''], log_data = ''0x01''\<rparr>],
      exec_traces = ()\<rparr>"

text \<open>A call that reverted without return data.\<close>

definition response_empty :: "unit ExecutionResponse" where
  "response_empty =
     \<lparr>exitReason = ''Revert'', reverted = True, exec_result = ''0x'',
      exec_gasUsed = ''21204'', exec_logs = [], exec_traces = ()\<rparr>"

text \<open>A call during which another contract emitted an event the interface does not list.\<close>

definition foreign_log :: raw_log where
  "foreign_log = \<lparr>address = ''0xbeef'', topics = [''0xdead''], log_data = ''0x2a''\<rparr>"

definition response_foreign_log :: "unit ExecutionResponse" where
  "response_foreign_log =
     \<lparr>exitReason = ''Stop'', reverted = False, exec_result = ''0x'',
      exec_gasUsed = ''51002'', exec_logs = [foreign_log], exec_traces = ()\<rparr>"

text \<open>The system once the first compile request has settled on the page above.\<close>

definition compiled_system :: "(abi_item, string, unit) system" where
  "compiled_system =
     \<lparr>page_of = compiled_page,
      compile_timer = None,
      compile_posted = [updatedCode defaultSolidityCode],
      compile_settled = [0],
      exec_posted = [],
      exec_settled = []\<rparr>"

definition unit_empty :: SolcCompileResponse where
  "unit_empty =
     \<lparr>data = [\<lparr>contract_name = ''Empty'', contract_abi = ''[]'', contract_bytecode = ''0x6003''\<rparr>],
      errors = []\<rparr>"

text \<open>
  Two compile requests in flight at once: the first was posted for the default source,
  the second after an edit; the response to the second has arrived, the response to the
  first has not.
\<close>

definition compile_race :: "(abi_item, string, unit) system" where
  "compile_race =
     run sample_codec
       [CompileTimerFires,
        SetSolidityCode ''contract Empty {}'',
        CompileTimerFires,
        CompileSettles 1 (Resolved unit_empty)]
       mounted"

text \<open>The same for the execution lane: two batches posted, the second one answered.\<close>

definition exec_race :: "(abi_item, string, unit) system" where
  "exec_race =
     run sample_codec
       [HandleFunctionCalls [call_get],
        HandleFunctionCalls [call_set],
        ExecSettles 1 (ExecResolved [response_set])]
       compiled_system"

section \<open>Properties of the call parser\<close>

lemma upto_last_paren_Some:
  assumes "upto_last_paren body = Some a"
  shows "\<exists>t. body = a @ CHR '')'' # t"
proof -
  from assms obtain x where d: "dropWhile (\<lambda>c. c \<noteq> CHR '')'') (rev body) = x # rev a"
    by (auto simp: upto_last_paren_def split: list.splits)
  then have "x = CHR '')''"
    using hd_dropWhile [of "\<lambda>c. c \<noteq> CHR '')''" "rev body"] by auto
  moreover have "rev body = takeWhile (\<lambda>c. c \<noteq> CHR '')'') (rev body) @ x # rev a"
    using d takeWhile_dropWhile_id [of "\<lambda>c. c \<noteq> CHR '')''" "rev body"] by simp
  ultimately have "rev (rev body) = rev (takeWhile (\<lambda>c. c \<noteq> CHR '')'') (rev body) @ CHR '')'' # rev a)"
    by simp
  then have "body = a @ CHR '')'' # rev (takeWhile (\<lambda>c. c \<noteq> CHR '')'') (rev body))"
    by simp
  then show ?thesis by blast
qed

lemma upto_last_paren_append:
  assumes "CHR '')'' \<notin> set t"
  shows "upto_last_paren (a @ CHR '')'' # t) = Some a"
proof -
  have "dropWhile (\<lambda>c. c \<noteq> CHR '')'') (rev t @ CHR '')'' # rev a) = CHR '')'' # rev a"
    using assms by (subst dropWhile_append2) auto
  then show ?thesis by (simp add: upto_last_paren_def)
qed

lemma upto_last_paren_defined:
  "CHR '')'' \<in> set body \<Longrightarrow> upto_last_paren body \<noteq> None"
  by (auto simp: upto_last_paren_def dropWhile_eq_Nil_conv split: list.splits)

lemma call_match_at_sound:
  assumes "call_match_at s = Some (n, a)"
  shows "\<exists>post. s = n @ ''('' @ a @ '')'' @ post"
    and "n \<noteq> []" and "list_all is_word_char n"
    and "list_all (\<lambda>c. \<not> is_line_terminator c) a"
proof -
  let ?w = "takeWhile is_word_char s"
  let ?rest = "dropWhile is_word_char s"
  from assms have w: "?w \<noteq> []" and n: "n = ?w"
    by (auto simp: call_match_at_def Let_def split: if_splits list.splits)
  from assms obtain r where rest: "?rest = CHR ''('' # r"
    and u: "upto_last_paren (takeWhile (\<lambda>c. \<not> is_line_terminator c) r) = Some a"
    by (auto simp: call_match_at_def Let_def split: if_splits list.splits)
  from u obtain t where t: "takeWhile (\<lambda>c. \<not> is_line_terminator c) r = a @ CHR '')'' # t"
    using upto_last_paren_Some by blast
  have "r = (a @ CHR '')'' # t) @ dropWhile (\<lambda>c. \<not> is_line_terminator c) r"
    using takeWhile_dropWhile_id [of "\<lambda>c. \<not> is_line_terminator c" r] t by simp
  moreover have "s = ?w @ ?rest" by simp
  ultimately have "s = n @ ''('' @ a @ '')'' @ (t @ dropWhile (\<lambda>c. \<not> is_line_terminator c) r)"
    using rest n by simp
  then show "\<exists>post. s = n @ ''('' @ a @ '')'' @ post" by blast
  show "n \<noteq> []" using w n by simp
  show "list_all is_word_char n"
    using n by (simp add: list_all_iff) (meson set_takeWhileD)
  have "set a \<subseteq> set (takeWhile (\<lambda>c. \<not> is_line_terminator c) r)"
    using t by auto
  then show "list_all (\<lambda>c. \<not> is_line_terminator c) a"
    by (auto simp: list_all_iff dest: set_takeWhileD)
qed

lemma call_match_sound:
  "call_match l = Some (n, a) \<Longrightarrow>
     (\<exists>pre post. l = pre @ n @ ''('' @ a @ '')'' @ post) \<and> n \<noteq> [] \<and>
     list_all is_word_char n \<and> list_all (\<lambda>c. \<not> is_line_terminator c) a"
proof (induction l)
  case Nil
  then show ?case by simp
next
  case (Cons c cs)
  show ?case
  proof (cases "call_match_at (c # cs)")
    case None
    with Cons.prems have "call_match cs = Some (n, a)" by simp
    from Cons.IH [OF this] obtain pre post where "cs = pre @ n @ ''('' @ a @ '')'' @ post"
      and rest: "n \<noteq> []" "list_all is_word_char n" "list_all (\<lambda>c. \<not> is_line_terminator c) a"
      by blast
    then have "c # cs = (c # pre) @ n @ ''('' @ a @ '')'' @ post" by simp
    with rest show ?thesis by blast
  next
    case (Some m)
    with Cons.prems have m: "call_match_at (c # cs) = Some (n, a)" by simp
    from call_match_at_sound(1) [OF m] obtain post
      where "c # cs = [] @ n @ ''('' @ a @ '')'' @ post" by auto
    then have "\<exists>pre post. c # cs = pre @ n @ ''('' @ a @ '')'' @ post" by blast
    with call_match_at_sound(2-4) [OF m] show ?thesis by blast
  qed
qed

lemma paren_not_word: "\<not> is_word_char CHR ''(''"
  by (simp add: is_word_char_def)

lemma paren_not_terminator: "\<not> is_line_terminator CHR '')''"
  by (simp add: is_line_terminator_def)

lemma call_match_at_form:
  assumes "n \<noteq> []" and "list_all is_word_char n"
    and "list_all (\<lambda>c. \<not> is_line_terminator c) a"
  shows "call_match_at (n @ ''('' @ a @ '')'' @ post) \<noteq> None"
    and "call_match_at (n @ ''('' @ a @ '')'') = Some (n, a)"
proof -
  have tw: "takeWhile is_word_char (n @ CHR ''('' # r) = n"
    and dw: "dropWhile is_word_char (n @ CHR ''('' # r) = CHR ''('' # r" for r
    using assms(2) paren_not_word by (simp_all add: list_all_iff takeWhile_append2 dropWhile_append2)
  have body: "takeWhile (\<lambda>c. \<not> is_line_terminator c) (a @ CHR '')'' # t) =
      a @ CHR '')'' # takeWhile (\<lambda>c. \<not> is_line_terminator c) t" for t
    using assms(3) paren_not_terminator by (simp add: list_all_iff takeWhile_append2)
  have "upto_last_paren (a @ CHR '')'' # takeWhile (\<lambda>c. \<not> is_line_terminator c) post) \<noteq> None"
    by (rule upto_last_paren_defined) simp
  then show "call_match_at (n @ ''('' @ a @ '')'' @ post) \<noteq> None"
    using assms(1) tw [of "a @ CHR '')'' # post"] dw [of "a @ CHR '')'' # post"]
      body [of post]
    by (simp add: call_match_at_def)
  have "upto_last_paren (a @ [CHR '')'']) = Some a"
    using upto_last_paren_append [of "[]" a] by simp
  then show "call_match_at (n @ ''('' @ a @ '')'') = Some (n, a)"
    using assms(1) tw [of "a @ [CHR '')'']"] dw [of "a @ [CHR '')'']"] body [of "[]"]
    by (simp add: call_match_at_def)
qed

lemma call_match_complete:
  assumes "n \<noteq> []" and "list_all is_word_char n"
    and "list_all (\<lambda>c. \<not> is_line_terminator c) a"
  shows "call_match (pre @ n @ ''('' @ a @ '')'' @ post) \<noteq> None"
proof (induction pre)
  case Nil
  obtain c cs where n: "n = c # cs" using assms(1) by (cases n) auto
  have "call_match_at (n @ ''('' @ a @ '')'' @ post) \<noteq> None"
    using call_match_at_form(1) [OF assms] .
  then show ?case using n by (auto split: option.splits)
next
  case (Cons p ps)
  then show ?case by (auto split: option.splits)
qed

lemma call_match_exact:
  assumes "n \<noteq> []" and "list_all is_word_char n"
    and "list_all (\<lambda>c. \<not> is_line_terminator c) a"
  shows "call_match (n @ ''('' @ a @ '')'') = Some (n, a)"
proof -
  obtain c cs where n: "n = c # cs" using assms(1) by (cases n) auto
  show ?thesis using call_match_at_form(2) [OF assms] n by simp
qed

lemma foldl_push_line:
  "foldl push_line acc ls =
     acc @ List.map_filter
       (\<lambda>l. map_option (\<lambda>(n, a). \<lparr>name = n, args = call_args a\<rparr>) (call_match l)) ls"
  by (induction ls arbitrary: acc)
     (auto simp: push_line_def List.map_filter_simps split: option.splits)

lemma parse_calls_map_filter:
  "parse_calls ls =
     List.map_filter
       (\<lambda>l. map_option (\<lambda>(n, a). \<lparr>name = n, args = call_args a\<rparr>) (call_match l)) ls"
  by (simp add: parse_calls_def foldl_push_line)

lemma call_match_iff_pattern:
  "(call_match l \<noteq> None) =
     (\<exists>pre n a post. l = pre @ n @ ''('' @ a @ '')'' @ post \<and> is_identifier n \<and> single_line a)"
proof
  assume "call_match l \<noteq> None"
  then obtain n a where "call_match l = Some (n, a)" by auto
  from call_match_sound [OF this] show
    "\<exists>pre n a post. l = pre @ n @ ''('' @ a @ '')'' @ post \<and> is_identifier n \<and> single_line a"
    unfolding is_identifier_def single_line_def by blast
next
  assume "\<exists>pre n a post. l = pre @ n @ ''('' @ a @ '')'' @ post \<and> is_identifier n \<and> single_line a"
  then obtain pre n a post where l: "l = pre @ n @ ''('' @ a @ '')'' @ post"
    and n: "n \<noteq> []" "list_all is_word_char n"
    and a: "list_all (\<lambda>c. \<not> is_line_terminator c) a"
    unfolding is_identifier_def single_line_def by blast
  show "call_match l \<noteq> None"
    unfolding l using call_match_complete [OF n a] .
qed

text \<open>
  Claim C4. The parser keeps the order of the lines and produces, for each line, one call
  when the line matches the pattern and none otherwise. A line matches exactly when it
  contains an identifier, an opening parenthesis, a stretch without line terminator and
  a closing parenthesis; the call's name is the matched identifier and its arguments are
  the pieces of the matched stretch between commas, trimmed, the empty ones dropped. A
  line that is of the form \<open>name(args)\<close> as a whole yields that name and those
  arguments; \<open>f()\<close> and \<open>f( , )\<close> yield no argument.
\<close>

theorem parse_calls_spec:
  "parse_calls ls =
     List.map_filter
       (\<lambda>l. map_option
          (\<lambda>(n, a). \<lparr>name = n, args = filter (\<lambda>arg. arg \<noteq> []) (map trim (split_comma a))\<rparr>)
          (call_match l)) ls
   \<and> (\<forall>l. (call_match l \<noteq> None) =
          (\<exists>pre n a post. l = pre @ n @ ''('' @ a @ '')'' @ post \<and> is_identifier n \<and> single_line a))
   \<and> (\<forall>l n a. call_match l = Some (n, a) \<longrightarrow>
          (\<exists>pre post. l = pre @ n @ ''('' @ a @ '')'' @ post) \<and> is_identifier n \<and> single_line a)
   \<and> (\<forall>n a. is_identifier n \<and> single_line a \<longrightarrow>
          parse_calls [n @ ''('' @ a @ '')''] =
            [\<lparr>name = n, args = filter (\<lambda>arg. arg \<noteq> []) (map trim (split_comma a))\<rparr>])
   \<and> (\<forall>l. call_match l = None \<longrightarrow> parse_calls [l] = [])
   \<and> parse_calls [''f()''] = [\<lparr>name = ''f'', args = []\<rparr>]
   \<and> parse_calls [''f( , )''] = [\<lparr>name = ''f'', args = []\<rparr>]"
proof (intro conjI allI impI)
  show "parse_calls ls =
     List.map_filter
       (\<lambda>l. map_option
          (\<lambda>(n, a). \<lparr>name = n, args = filter (\<lambda>arg. arg \<noteq> []) (map trim (split_comma a))\<rparr>)
          (call_match l)) ls"
    using parse_calls_map_filter [of ls] by (simp add: call_args_def)
next
  fix l
  show "(call_match l \<noteq> None) =
     (\<exists>pre n a post. l = pre @ n @ ''('' @ a @ '')'' @ post \<and> is_identifier n \<and> single_line a)"
    by (rule call_match_iff_pattern)
next
  fix l n a
  assume m: "call_match l = Some (n, a)"
  from call_match_sound [OF m] show "\<exists>pre post. l = pre @ n @ ''('' @ a @ '')'' @ post"
    and "is_identifier n" and "single_line a"
    unfolding is_identifier_def single_line_def by blast+
next
  fix n a
  assume "is_identifier n \<and> single_line a"
  then have "call_match (n @ ''('' @ a @ '')'') = Some (n, a)"
    unfolding is_identifier_def single_line_def using call_match_exact by blast
  then show "parse_calls [n @ ''('' @ a @ '')''] =
      [\<lparr>name = n, args = filter (\<lambda>arg. arg \<noteq> []) (map trim (split_comma a))\<rparr>]"
    by (simp add: parse_calls_def push_line_def call_args_def)
next
  fix l
  assume "call_match l = None"
  then show "parse_calls [l] = []"
    by (simp add: parse_calls_def push_line_def)
next
  have "call_match ''f()'' = Some (''f'', [])"
    using call_match_exact [of "''f''" "[]"] by (simp add: is_word_char_def)
  then show "parse_calls [''f()''] = [\<lparr>name = ''f'', args = []\<rparr>]"
    by (simp add: parse_calls_def push_line_def call_args_def trim_def)
next
  have "call_match ''f( , )'' = Some (''f'', '' , '')"
    using call_match_exact [of "''f''" "'' , ''"]
    by (simp add: is_word_char_def is_line_terminator_def)
  then show "parse_calls [''f( , )''] = [\<lparr>name = ''f'', args = []\<rparr>]"
    by (simp add: parse_calls_def push_line_def call_args_def trim_def is_white_space_def)
qed

theorem parse_calls_spec_witness:
  "is_identifier ''set'' \<and> single_line '' 1, x ,'' \<and>
   call_match ''foobar'' = None \<and>
   parse_calls [''set( 1, x ,)''] = [\<lparr>name = ''set'', args = [''1'', ''x'']\<rparr>] \<and>
   parse_calls [''foobar''] = []"
proof -
  have h: "is_identifier ''set'' \<and> single_line '' 1, x ,''"
    by (simp add: is_identifier_def single_line_def is_word_char_def is_line_terminator_def)
  have g: "call_match ''foobar'' = None"
    by (simp add: call_match_at_def is_word_char_def)
  have "parse_calls [''set'' @ ''('' @ '' 1, x ,'' @ '')''] =
      [\<lparr>name = ''set'', args = filter (\<lambda>arg. arg \<noteq> []) (map trim (split_comma '' 1, x ,''))\<rparr>]"
    using parse_calls_spec [of "[]"] h by blast
  moreover have "parse_calls [''foobar''] = []"
    using parse_calls_spec [of "[]"] g by blast
  ultimately show ?thesis
    using h g by (simp add: trim_def is_white_space_def)
qed

section \<open>The compile lane\<close>

text \<open>
  Claim C8. A resolved compile request whose list of units is not empty, and whose last
  unit carries an interface description that parses, replaces the bytecode by the last
  unit's bytecode, the interface by the last unit's parsed description and the
  diagnostics by the returned list; none of the three keeps anything of its former
  value, and nothing else on the page changes.
\<close>

theorem compile_success_replaces_registry:
  assumes "data r \<noteq> []"
    and "JSON_parse C (contract_abi (last (data r))) = Some a"
  shows "compileSolidity_settle C (Resolved r) s =
           s\<lparr>bytecode := contract_bytecode (last (data r)), abi := a,
             compilationErrors := errors r\<rparr>
         \<and> bytecode (compileSolidity_settle C (Resolved r) s) = contract_bytecode (last (data r))
         \<and> abi (compileSolidity_settle C (Resolved r) s) = a
         \<and> compilationErrors (compileSolidity_settle C (Resolved r) s) = errors r"
  using assms by (simp add: compileSolidity_settle_def)

theorem compile_success_replaces_registry_witness:
  "data two_units \<noteq> [] \<and>
   JSON_parse sample_codec (contract_abi (last (data two_units))) = Some simple_storage_abi \<and>
   bytecode (compileSolidity_settle sample_codec (Resolved two_units) deployed_page) = ''0x6002'' \<and>
   abi (compileSolidity_settle sample_codec (Resolved two_units) deployed_page) = simple_storage_abi \<and>
   compilationErrors (compileSolidity_settle sample_codec (Resolved two_units) deployed_page) =
     [warning_unused]"
proof -
  have d: "data two_units \<noteq> []"
    by (simp add: two_units_def)
  have p: "JSON_parse sample_codec (contract_abi (last (data two_units))) = Some simple_storage_abi"
    by (simp add: two_units_def sample_codec_def)
  show ?thesis
    using compile_success_replaces_registry [OF d p, of deployed_page] d p
    by (simp add: two_units_def)
qed

text \<open>
  Claim C5, as stated, fails for a failure without a response: the request is rejected by
  an Axios error that carries no response (the service was not reached), and the
  diagnostics stay as they were, empty on the fresh page and the one earlier warning on
  the page that held it.
\<close>

theorem transport_failure_counterexample:
  "compilationErrors (compileSolidity_settle sample_codec (Rejected (AxiosError None)) sample_page) = []
   \<and> compilationErrors (compileSolidity_settle sample_codec (Rejected (AxiosError None)) deployed_page) =
       [warning_unused]"
  by (simp add: compileSolidity_settle_def compile_catch_def sample_page_def initial_page_def
      deployed_page_def)

text \<open>
  Claim C5, amended. A rejected compile request leaves interface and bytecode as they
  were. When the rejection is an Axios error with a response whose body can be read, the
  diagnostics become exactly one diagnostic of type \<open>Error\<close> whose message is the
  body's message, or \<open>Unknown error occurred\<close> when that message is missing or empty.
  Every other rejection (no response, an unusable body, an error of another kind) leaves
  the diagnostics as they were.
\<close>

theorem compile_failure_handling:
  "abi (compileSolidity_settle C (Rejected t) s) = abi s
   \<and> bytecode (compileSolidity_settle C (Rejected t) s) = bytecode s
   \<and> compilationErrors (compileSolidity_settle C (Rejected (AxiosError (Some (Data m)))) s) =
       [\<lparr>errorType = Error,
         message = (case m of
                      None \<Rightarrow> ''Unknown error occurred''
                    | Some x \<Rightarrow> if x = [] then ''Unknown error occurred'' else x),
         details = \<lparr>line = None, column = None, codeSnippet = None\<rparr>\<rparr>]
   \<and> ((\<forall>m'. t \<noteq> AxiosError (Some (Data m'))) \<longrightarrow>
        compilationErrors (compileSolidity_settle C (Rejected t) s) = compilationErrors s)"
proof (intro conjI impI)
  show "abi (compileSolidity_settle C (Rejected t) s) = abi s"
    by (simp add: compileSolidity_settle_def compile_catch_def report_unhandled_def Let_def
        split: thrown.splits option.splits error_data.splits)
  show "bytecode (compileSolidity_settle C (Rejected t) s) = bytecode s"
    by (simp add: compileSolidity_settle_def compile_catch_def report_unhandled_def Let_def
        split: thrown.splits option.splits error_data.splits)
  show "compilationErrors (compileSolidity_settle C (Rejected (AxiosError (Some (Data m)))) s) =
       [\<lparr>errorType = Error,
         message = (case m of
                      None \<Rightarrow> ''Unknown error occurred''
                    | Some x \<Rightarrow> if x = [] then ''Unknown error occurred'' else x),
         details = \<lparr>line = None, column = None, codeSnippet = None\<rparr>\<rparr>]"
    by (simp add: compileSolidity_settle_def compile_catch_def synthesized_error_def)
next
  assume "\<forall>m'. t \<noteq> AxiosError (Some (Data m'))"
  then show "compilationErrors (compileSolidity_settle C (Rejected t) s) = compilationErrors s"
    by (simp add: compileSolidity_settle_def compile_catch_def report_unhandled_def Let_def
        split: thrown.splits option.splits error_data.splits)
qed

theorem compile_failure_handling_witness:
  "abi (compileSolidity_settle sample_codec (Rejected (AxiosError None)) deployed_page) =
     simple_storage_abi
   \<and> bytecode (compileSolidity_settle sample_codec (Rejected (AxiosError None)) deployed_page) =
       ''0x6002''
   \<and> compilationErrors
       (compileSolidity_settle sample_codec
          (Rejected (AxiosError (Some (Data (Some ''Compiler not found''))))) deployed_page) =
       [\<lparr>errorType = Error, message = ''Compiler not found'',
         details = \<lparr>line = None, column = None, codeSnippet = None\<rparr>\<rparr>]
   \<and> compilationErrors (compileSolidity_settle sample_codec (Rejected (AxiosError None)) deployed_page) =
       [warning_unused]"
proof -
  have "\<forall>m'. AxiosError None \<noteq> AxiosError (Some (Data m'))" by simp
  then show ?thesis
    using compile_failure_handling [of sample_codec "AxiosError None" deployed_page]
      compile_failure_handling [of sample_codec "AxiosError None" deployed_page
        "Some ''Compiler not found''"]
    by (simp add: deployed_page_def)
qed

section \<open>Deleting a line of the call list\<close>

lemma splice1_Nil: "splice1 i [] = []"
  by (simp add: splice1_def)

lemma splice1_Cons_0: "splice1 0 (x # xs) = xs"
  by (simp add: splice1_def)

lemma splice1_Cons_Suc: "splice1 (Suc i) (x # xs) = x # splice1 i xs"
  by (simp add: splice1_def)

lemma splice1_zip: "zip (splice1 i xs) (splice1 i ys) = splice1 i (zip xs ys)"
proof (induction i arbitrary: xs ys)
  case 0
  show ?case by (cases xs; cases ys) (simp_all add: splice1_Nil splice1_Cons_0)
next
  case (Suc i)
  show ?case
    by (cases xs; cases ys) (simp_all add: splice1_Nil splice1_Cons_Suc Suc.IH)
qed

lemma splice1_nth_before: "j < i \<Longrightarrow> j < length xs \<Longrightarrow> splice1 i xs ! j = xs ! j"
  by (simp add: splice1_def nth_append)

lemma splice1_nth_after: "i \<le> j \<Longrightarrow> Suc j < length xs \<Longrightarrow> splice1 i xs ! j = xs ! Suc j"
  by (simp add: splice1_def nth_append min_def)

lemma splice1_length: "i < length xs \<Longrightarrow> length (splice1 i xs) = length xs - 1"
  by (simp add: splice1_def)

lemma splice1_twice: "splice1 i (splice1 i xs) = take i xs @ drop (Suc (Suc i)) xs"
proof (cases "i \<le> length xs")
  case True
  then show ?thesis by (simp add: splice1_def min_def)
next
  case False
  then show ?thesis by (simp add: splice1_def)
qed

lemma delete_run_once:
  "handleFunctionCallsChange Production None i s =
     s\<lparr>functionCalls := splice1 i (functionCalls s),
       functionCalls_ref := Suc (functionCalls_ref s),
       result := splice1 i (result s)\<rparr>"
  by (simp add: handleFunctionCallsChange_def change_updater_def)

lemma delete_run_twice:
  "handleFunctionCallsChange StrictDevelopment None i s =
     s\<lparr>functionCalls := splice1 i (functionCalls s),
       functionCalls_ref := Suc (functionCalls_ref s),
       result := splice1 i (splice1 i (result s))\<rparr>"
  by (simp add: handleFunctionCallsChange_def change_updater_def)

text \<open>
  Where the function given to the setter runs once, deleting line \<open>i\<close> applies the same
  removal at index \<open>i\<close> to the call list and to the result list, and the pairs formed by
  equal indices of the two lists are the old pairs without the pair at \<open>i\<close>.
\<close>

lemma delete_once_keeps_alignment:
  "functionCalls (handleFunctionCallsChange Production None i s) =
     take i (functionCalls s) @ drop (Suc i) (functionCalls s)
   \<and> result (handleFunctionCallsChange Production None i s) =
       take i (result s) @ drop (Suc i) (result s)
   \<and> zip (functionCalls (handleFunctionCallsChange Production None i s))
         (result (handleFunctionCallsChange Production None i s)) =
       take i (zip (functionCalls s) (result s)) @ drop (Suc i) (zip (functionCalls s) (result s))
   \<and> (i < length (result s) \<longrightarrow>
        length (result (handleFunctionCallsChange Production None i s)) = length (result s) - 1)
   \<and> (\<forall>j. j < i \<and> j < length (result s) \<longrightarrow>
        result (handleFunctionCallsChange Production None i s) ! j = result s ! j)
   \<and> (\<forall>j. i \<le> j \<and> Suc j < length (result s) \<longrightarrow>
        result (handleFunctionCallsChange Production None i s) ! j = result s ! Suc j)"
proof -
  have z: "zip (splice1 i (functionCalls s)) (splice1 i (result s)) =
      take i (zip (functionCalls s) (result s)) @ drop (Suc i) (zip (functionCalls s) (result s))"
    using splice1_zip [of i "functionCalls s" "result s"] by (simp add: splice1_def)
  show ?thesis
    unfolding delete_run_once
  proof (intro conjI allI impI)
    show "functionCalls
           (s\<lparr>functionCalls := splice1 i (functionCalls s),
              functionCalls_ref := Suc (functionCalls_ref s),
              result := splice1 i (result s)\<rparr>) =
          take i (functionCalls s) @ drop (Suc i) (functionCalls s)"
      by (simp add: splice1_def)
    show "result
           (s\<lparr>functionCalls := splice1 i (functionCalls s),
              functionCalls_ref := Suc (functionCalls_ref s),
              result := splice1 i (result s)\<rparr>) =
          take i (result s) @ drop (Suc i) (result s)"
      by (simp add: splice1_def)
    show "zip (functionCalls
                (s\<lparr>functionCalls := splice1 i (functionCalls s),
                   functionCalls_ref := Suc (functionCalls_ref s),
                   result := splice1 i (result s)\<rparr>))
              (result
                (s\<lparr>functionCalls := splice1 i (functionCalls s),
                   functionCalls_ref := Suc (functionCalls_ref s),
                   result := splice1 i (result s)\<rparr>)) =
          take i (zip (functionCalls s) (result s)) @ drop (Suc i) (zip (functionCalls s) (result s))"
      using z by simp
    show "length (result
                   (s\<lparr>functionCalls := splice1 i (functionCalls s),
                      functionCalls_ref := Suc (functionCalls_ref s),
                      result := splice1 i (result s)\<rparr>)) = length (result s) - 1"
      if "i < length (result s)"
      using that by (simp add: splice1_length)
    show "result
           (s\<lparr>functionCalls := splice1 i (functionCalls s),
              functionCalls_ref := Suc (functionCalls_ref s),
              result := splice1 i (result s)\<rparr>) ! j = result s ! j"
      if "j < i \<and> j < length (result s)" for j
      using that by (simp add: splice1_nth_before)
    show "result
           (s\<lparr>functionCalls := splice1 i (functionCalls s),
              functionCalls_ref := Suc (functionCalls_ref s),
              result := splice1 i (result s)\<rparr>) ! j = result s ! Suc j"
      if "i \<le> j \<and> Suc j < length (result s)" for j
      using that by (simp add: splice1_nth_after)
  qed
qed

text \<open>
  Claim C6. The deletion splices the held result array inside the function it gives to
  \<^verbatim>\<open>setFunctionCalls\<close>. In a development build under StrictMode that function runs
  twice for one deletion: the call list loses line \<open>i\<close>, as claimed, but the result list
  loses the results at \<open>i\<close> and at \<open>i + 1\<close>, so that every later line is shown with the
  result of the line after it. In a production build the function runs once and exactly
  the result at \<open>i\<close> is removed.
\<close>

theorem delete_strict_mode_removes_two:
  "handleFunctionCallsChange StrictDevelopment None i s =
     s\<lparr>functionCalls := take i (functionCalls s) @ drop (Suc i) (functionCalls s),
       functionCalls_ref := Suc (functionCalls_ref s),
       result := take i (result s) @ drop (Suc (Suc i)) (result s)\<rparr>
   \<and> (Suc i < length (result s) \<longrightarrow>
        length (result (handleFunctionCallsChange StrictDevelopment None i s)) =
          length (result s) - 2)
   \<and> (Suc (Suc i) < length (result s) \<longrightarrow>
        result (handleFunctionCallsChange StrictDevelopment None i s) ! i =
          result s ! Suc (Suc i))
   \<and> handleFunctionCallsChange Production None i s =
       s\<lparr>functionCalls := take i (functionCalls s) @ drop (Suc i) (functionCalls s),
         functionCalls_ref := Suc (functionCalls_ref s),
         result := take i (result s) @ drop (Suc i) (result s)\<rparr>"
proof (intro conjI impI)
  show two: "handleFunctionCallsChange StrictDevelopment None i s =
     s\<lparr>functionCalls := take i (functionCalls s) @ drop (Suc i) (functionCalls s),
       functionCalls_ref := Suc (functionCalls_ref s),
       result := take i (result s) @ drop (Suc (Suc i)) (result s)\<rparr>"
    using delete_run_twice [of i s] splice1_twice [of i "result s"] by (simp add: splice1_def)
  show "length (result (handleFunctionCallsChange StrictDevelopment None i s)) =
          length (result s) - 2"
    if "Suc i < length (result s)"
    unfolding two using that by simp
  show "result (handleFunctionCallsChange StrictDevelopment None i s) ! i =
          result s ! Suc (Suc i)"
    if "Suc (Suc i) < length (result s)"
    unfolding two using that by (simp add: nth_append)
  show "handleFunctionCallsChange Production None i s =
       s\<lparr>functionCalls := take i (functionCalls s) @ drop (Suc i) (functionCalls s),
         functionCalls_ref := Suc (functionCalls_ref s),
         result := take i (result s) @ drop (Suc i) (result s)\<rparr>"
    using delete_run_once [of i s] by (simp add: splice1_def)
qed

theorem delete_strict_mode_removes_two_witness:
  "Suc 0 < length (result deployed_page)
   \<and> Suc (Suc 0) < length (result deployed_page)
   \<and> functionCalls (handleFunctionCallsChange StrictDevelopment None 0 deployed_page) =
       [''set(1)'', ''get()'']
   \<and> result (handleFunctionCallsChange StrictDevelopment None 0 deployed_page) = [display_get]
   \<and> length (result (handleFunctionCallsChange StrictDevelopment None 0 deployed_page)) = 1
   \<and> result (handleFunctionCallsChange StrictDevelopment None 0 deployed_page) ! 0 =
       result deployed_page ! 2
   \<and> result (handleFunctionCallsChange Production None 0 deployed_page) =
       [display_set, display_get]"
proof -
  have h: "Suc 0 < length (result deployed_page)" "Suc (Suc 0) < length (result deployed_page)"
    by (simp_all add: deployed_page_def)
  show ?thesis
    using delete_strict_mode_removes_two [of 0 deployed_page] h
    by (simp add: deployed_page_def numeral_2_eq_2)
qed

section \<open>The decoding loop\<close>

lemma decode_results_Inr_iff:
  "decode_results C a calls i rs = Inr outs \<longleftrightarrow>
     length outs = length rs \<and>
     (\<forall>j<length rs. decode_result C a calls (i + j) (rs ! j) = Inr (outs ! j))"
proof (induction rs arbitrary: i outs)
  case Nil
  then show ?case by auto
next
  case (Cons r rs)
  show ?case
  proof (cases "decode_result C a calls i r")
    case (Inl e)
    then have "decode_result C a calls (i + 0) ((r # rs) ! 0) \<noteq> Inr (outs ! 0)" by simp
    then have "\<not> (\<forall>j<length (r # rs). decode_result C a calls (i + j) ((r # rs) ! j) = Inr (outs ! j))"
      by (metis length_greater_0_conv list.distinct(1))
    with Inl show ?thesis by simp
  next
    case (Inr out)
    show ?thesis
    proof (cases "decode_results C a calls (Suc i) rs")
      case (Inl e)
      have "\<not> (length outs = length (r # rs) \<and>
          (\<forall>j<length (r # rs). decode_result C a calls (i + j) ((r # rs) ! j) = Inr (outs ! j)))"
      proof
        assume h: "length outs = length (r # rs) \<and>
          (\<forall>j<length (r # rs). decode_result C a calls (i + j) ((r # rs) ! j) = Inr (outs ! j))"
        then obtain o' os where outs: "outs = o' # os" by (cases outs) auto
        from h outs have "length os = length rs" by simp
        moreover have "\<forall>j<length rs. decode_result C a calls (Suc i + j) (rs ! j) = Inr (os ! j)"
        proof (intro allI impI)
          fix j assume "j < length rs"
          then have "Suc j < length (r # rs)" by simp
          with h have "decode_result C a calls (i + Suc j) ((r # rs) ! Suc j) = Inr (outs ! Suc j)"
            by blast
          then show "decode_result C a calls (Suc i + j) (rs ! j) = Inr (os ! j)"
            using outs by simp
        qed
        ultimately have "decode_results C a calls (Suc i) rs = Inr os"
          using Cons.IH [of "Suc i" os] by blast
        with Inl show False by simp
      qed
      with Inr Inl show ?thesis by simp
    next
      case (Inr os)
      note tail = this
      from Cons.IH [of "Suc i" os] tail
      have len: "length os = length rs"
        and all: "\<forall>j<length rs. decode_result C a calls (Suc i + j) (rs ! j) = Inr (os ! j)"
        by blast+
      have lhs: "decode_results C a calls i (r # rs) = Inr (out # os)"
        using \<open>decode_result C a calls i r = Inr out\<close> tail by simp
      show ?thesis
      proof
        assume "decode_results C a calls i (r # rs) = Inr outs"
        with lhs have outs: "outs = out # os" by simp
        have "decode_result C a calls (i + j) ((r # rs) ! j) = Inr (outs ! j)"
          if "j < length (r # rs)" for j
        proof (cases j)
          case 0
          then show ?thesis using outs \<open>decode_result C a calls i r = Inr out\<close> by simp
        next
          case (Suc k)
          with that have "k < length rs" by simp
          with all have "decode_result C a calls (Suc i + k) (rs ! k) = Inr (os ! k)" by blast
          then show ?thesis using Suc outs by simp
        qed
        then show "length outs = length (r # rs) \<and>
          (\<forall>j<length (r # rs). decode_result C a calls (i + j) ((r # rs) ! j) = Inr (outs ! j))"
          using outs len by simp
      next
        assume h: "length outs = length (r # rs) \<and>
          (\<forall>j<length (r # rs). decode_result C a calls (i + j) ((r # rs) ! j) = Inr (outs ! j))"
        then obtain o' os' where outs: "outs = o' # os'" by (cases outs) auto
        from h have "decode_result C a calls (i + 0) ((r # rs) ! 0) = Inr (outs ! 0)" by blast
        with outs \<open>decode_result C a calls i r = Inr out\<close> have o': "o' = out" by simp
        from h outs have len': "length os' = length rs" by simp
        have "os' ! j = os ! j" if "j < length rs" for j
        proof -
          from that have "Suc j < length (r # rs)" by simp
          with h have "decode_result C a calls (i + Suc j) ((r # rs) ! Suc j) = Inr (outs ! Suc j)"
            by blast
          then have "decode_result C a calls (Suc i + j) (rs ! j) = Inr (os' ! j)"
            using outs by simp
          moreover from all that
          have "decode_result C a calls (Suc i + j) (rs ! j) = Inr (os ! j)" by blast
          ultimately show ?thesis by simp
        qed
        then have "os' = os" using len len' by (simp add: list_eq_iff_nth_eq)
        with lhs outs o' show "decode_results C a calls i (r # rs) = Inr outs" by simp
      qed
    qed
  qed
qed

lemma decode_results_failure:
  assumes "j < length rs" and "decode_result C a calls (i + j) (rs ! j) = Inl e"
  shows "\<exists>e'. decode_results C a calls i rs = Inl e'"
proof (cases "decode_results C a calls i rs")
  case (Inl e')
  then show ?thesis by blast
next
  case (Inr outs)
  then have "decode_result C a calls (i + j) (rs ! j) = Inr (outs ! j)"
    using assms(1) decode_results_Inr_iff [of C a calls i rs outs] by blast
  with assms(2) show ?thesis by simp
qed

lemma decode_logs_Inr_iff:
  "decode_logs C a ls = Inr ds \<longleftrightarrow>
     length ds = length ls \<and>
     (\<forall>k<length ls. decodeEventLog C a (log_data (ls ! k)) (topics (ls ! k)) = Inr (ds ! k))"
proof (induction ls arbitrary: ds)
  case Nil
  then show ?case by auto
next
  case (Cons l ls)
  show ?case
  proof (cases ds)
    case Nil
    then show ?thesis by (auto split: sum.splits)
  next
    case (Cons d ds')
    have "(\<forall>k<length (l # ls). decodeEventLog C a (log_data ((l # ls) ! k)) (topics ((l # ls) ! k)) =
              Inr ((d # ds') ! k)) \<longleftrightarrow>
          decodeEventLog C a (log_data l) (topics l) = Inr d \<and>
          (\<forall>k<length ls. decodeEventLog C a (log_data (ls ! k)) (topics (ls ! k)) = Inr (ds' ! k))"
      by (auto simp: less_Suc_eq_0_disj)
    then show ?thesis
      using Cons Cons.IH [of ds'] by (auto split: sum.splits)
  qed
qed

lemma decode_logs_failure:
  assumes "l \<in> set ls" and "decodeEventLog C a (log_data l) (topics l) = Inl e"
  shows "\<exists>e'. decode_logs C a ls = Inl e'"
proof (cases "decode_logs C a ls")
  case (Inl e')
  then show ?thesis by blast
next
  case (Inr ds)
  from assms(1) obtain k where "k < length ls" and "ls ! k = l"
    by (auto simp: in_set_conv_nth)
  with Inr have "decodeEventLog C a (log_data l) (topics l) = Inr (ds ! k)"
    using decode_logs_Inr_iff [of C a ls ds] by auto
  with assms(2) show ?thesis by simp
qed

lemma decode_result_same_but_status:
  "same_but_status r r' \<Longrightarrow> decode_result C a calls i r = decode_result C a calls i r'"
  by (simp add: same_but_status_def decode_result_def split: sum.splits)

lemma decode_results_same_but_status:
  "list_all2 same_but_status rs rs' \<Longrightarrow>
     decode_results C a calls i rs = decode_results C a calls i rs'"
proof (induction rs rs' arbitrary: i rule: list_all2_induct)
  case Nil
  show ?case by simp
next
  case (Cons r rs r' rs')
  then show ?case
    using decode_result_same_but_status [of r r' C a calls i] by (simp split: sum.splits)
qed

text \<open>
  Claim C10. The decoder reads neither \<open>reverted\<close> nor \<open>exitReason\<close>: changing the
  two fields of a response changes nothing of what the decoder makes of it, and two
  batches whose responses agree on every other field leave the page in the same state.
\<close>

theorem display_ignores_revert_status:
  "decode_result C a calls i (r\<lparr>reverted := b, exitReason := x\<rparr>) = decode_result C a calls i r
   \<and> (same_but_status r r' \<longrightarrow> decode_result C a calls i r = decode_result C a calls i r')
   \<and> (list_all2 same_but_status rs rs' \<longrightarrow>
        handleFunctionCalls_settle C a calls (ExecResolved rs) s =
        handleFunctionCalls_settle C a calls (ExecResolved rs') s)"
proof (intro conjI impI)
  show "decode_result C a calls i (r\<lparr>reverted := b, exitReason := x\<rparr>) = decode_result C a calls i r"
    by (simp add: decode_result_def split: sum.splits)
  show "decode_result C a calls i r = decode_result C a calls i r'" if "same_but_status r r'"
    using that by (rule decode_result_same_but_status)
  show "handleFunctionCalls_settle C a calls (ExecResolved rs) s =
        handleFunctionCalls_settle C a calls (ExecResolved rs') s"
    if "list_all2 same_but_status rs rs'"
    using decode_results_same_but_status [OF that, of C a calls 0]
    by (simp add: handleFunctionCalls_settle_def)
qed

theorem display_ignores_revert_status_witness:
  "same_but_status response_get response_empty = False
   \<and> same_but_status response_get (response_get\<lparr>reverted := True, exitReason := ''Revert''\<rparr>)
   \<and> list_all2 same_but_status [response_get]
        [response_get\<lparr>reverted := True, exitReason := ''Revert''\<rparr>]
   \<and> result (handleFunctionCalls_settle sample_codec simple_storage_abi [call_get]
        (ExecResolved [response_get\<lparr>reverted := True, exitReason := ''Revert''\<rparr>]) compiled_page) =
      [\<lparr>call = ''get'', gasUsed = ''2402'', response = Some ''0x01'', logs = Some [],
        rawLogs = None, traces = ()\<rparr>]"
proof -
  have h: "list_all2 same_but_status [response_get]
        [response_get\<lparr>reverted := True, exitReason := ''Revert''\<rparr>]"
    by (simp add: same_but_status_def)
  have "handleFunctionCalls_settle sample_codec simple_storage_abi [call_get]
          (ExecResolved [response_get\<lparr>reverted := True, exitReason := ''Revert''\<rparr>]) compiled_page =
        handleFunctionCalls_settle sample_codec simple_storage_abi [call_get]
          (ExecResolved [response_get]) compiled_page"
    using display_ignores_revert_status
      [where C = sample_codec and a = simple_storage_abi and calls = "[call_get]"
         and rs = "[response_get\<lparr>reverted := True, exitReason := ''Revert''\<rparr>]"
         and rs' = "[response_get]" and s = compiled_page and i = 0 and r = response_get
         and r' = response_get and b = True and x = "''Revert''"] h
    by (simp add: same_but_status_def)
  moreover have "result (handleFunctionCalls_settle sample_codec simple_storage_abi [call_get]
          (ExecResolved [response_get]) compiled_page) =
      [\<lparr>call = ''get'', gasUsed = ''2402'', response = Some ''0x01'', logs = Some [],
        rawLogs = None, traces = ()\<rparr>]"
    by (simp add: handleFunctionCalls_settle_def decode_result_def sample_codec_def
        simple_storage_abi_def call_get_def response_get_def)
  ultimately show ?thesis
    using h by (simp add: same_but_status_def response_get_def response_empty_def)
qed

lemma decode_result_Inr_logs:
  assumes "decode_result C a calls i r = Inr out"
  shows "\<exists>ds. logs out = Some ds \<and> rawLogs out = None \<and> decode_logs C a (exec_logs r) = Inr ds"
  using assms by (auto simp: decode_result_def split: if_splits sum.splits)

lemma decode_result_log_failure:
  assumes "l \<in> set (exec_logs r)" and "decodeEventLog C a (log_data l) (topics l) = Inl e"
  shows "\<exists>e'. decode_result C a calls i r = Inl e'"
proof -
  from decode_logs_failure [OF assms] obtain e' where "decode_logs C a (exec_logs r) = Inl e'"
    by blast
  then show ?thesis
    by (auto simp: decode_result_def split: sum.splits)
qed

lemma settle_committed:
  "decode_results C a calls 0 results = Inr outs \<Longrightarrow>
     handleFunctionCalls_settle C a calls (ExecResolved results) s = s\<lparr>result := outs\<rparr>"
  by (simp add: handleFunctionCalls_settle_def)

lemma settle_dropped:
  "decode_results C a calls 0 results = Inl e \<Longrightarrow>
     handleFunctionCalls_settle C a calls (ExecResolved results) s =
       s\<lparr>console := console s @ [ConsoleError ''Execution error:'' e]\<rparr>"
  by (simp add: handleFunctionCalls_settle_def)

text \<open>
  Claim C2, as stated, fails on a batch of two calls whose first response carries empty
  return data (a revert without data) for a function that has an output: the second
  response decodes on its own, yet no result of the batch is committed; the held result
  list stays as it was, empty on the fresh page and the three earlier results on the
  page that held them.
\<close>

theorem decode_failure_counterexample:
  "decode_result sample_codec simple_storage_abi [call_get, call_set] 0 response_empty =
     Inl (CodecError DecodeFailure)
   \<and> decode_result sample_codec simple_storage_abi [call_get, call_set] 1 response_set =
       Inr display_set
   \<and> result (handleFunctionCalls_settle sample_codec simple_storage_abi [call_get, call_set]
        (ExecResolved [response_empty, response_set]) compiled_page) = []
   \<and> result (handleFunctionCalls_settle sample_codec simple_storage_abi [call_get, call_set]
        (ExecResolved [response_empty, response_set]) deployed_page) =
       [display_get, display_set, display_get]"
  by (simp add: handleFunctionCalls_settle_def decode_result_def sample_codec_def
      simple_storage_abi_def call_get_def call_set_def response_empty_def response_set_def
      display_set_def compiled_page_def deployed_page_def sample_page_def initial_page_def)

text \<open>
  Claim C2, amended. The batch is decoded as a whole. When every response of the batch
  decodes, the result list is replaced by the calls' results in order, each computed
  from its own call and response only. When the return data or a log of any one call
  fails to decode, the error is written to the console, no result of the batch is
  committed and the held result list is left as it was.
\<close>

theorem decode_batch_all_or_nothing:
  "(length outs = length results \<and>
      (\<forall>j<length results. decode_result C a calls j (results ! j) = Inr (outs ! j))
      \<longrightarrow> handleFunctionCalls_settle C a calls (ExecResolved results) s = s\<lparr>result := outs\<rparr>)
   \<and> (j < length results \<and> decode_result C a calls j (results ! j) = Inl e
      \<longrightarrow> (\<exists>e'. handleFunctionCalls_settle C a calls (ExecResolved results) s =
                  s\<lparr>console := console s @ [ConsoleError ''Execution error:'' e']\<rparr>)
          \<and> result (handleFunctionCalls_settle C a calls (ExecResolved results) s) = result s)
   \<and> (j < length calls \<longrightarrow> decode_result C a calls j r = decode_result C a [calls ! j] 0 r)"
proof (intro conjI impI)
  assume "length outs = length results \<and>
      (\<forall>j<length results. decode_result C a calls j (results ! j) = Inr (outs ! j))"
  then have "decode_results C a calls 0 results = Inr outs"
    using decode_results_Inr_iff [of C a calls 0 results outs] by simp
  then show "handleFunctionCalls_settle C a calls (ExecResolved results) s = s\<lparr>result := outs\<rparr>"
    by (rule settle_committed)
next
  assume h: "j < length results \<and> decode_result C a calls j (results ! j) = Inl e"
  then obtain e' where e': "decode_results C a calls 0 results = Inl e'"
    using decode_results_failure [of j results C a calls 0 e] by auto
  from settle_dropped [OF e', of s]
  show "\<exists>e'. handleFunctionCalls_settle C a calls (ExecResolved results) s =
                  s\<lparr>console := console s @ [ConsoleError ''Execution error:'' e']\<rparr>"
    by blast
  from settle_dropped [OF e', of s]
  show "result (handleFunctionCalls_settle C a calls (ExecResolved results) s) = result s"
    by simp
next
  assume "j < length calls"
  then show "decode_result C a calls j r = decode_result C a [calls ! j] 0 r"
    by (simp add: decode_result_def split: sum.splits)
qed

theorem decode_batch_all_or_nothing_witness:
  "decode_result sample_codec simple_storage_abi [call_get, call_set] 0
      ([response_empty, response_set] ! 0) = Inl (CodecError DecodeFailure)
   \<and> result (handleFunctionCalls_settle sample_codec simple_storage_abi [call_get, call_set]
        (ExecResolved [response_empty, response_set]) deployed_page) = result deployed_page
   \<and> decode_result sample_codec simple_storage_abi [call_get, call_set] 0
        ([response_get, response_set] ! 0) = Inr ([display_get, display_set] ! 0)
   \<and> decode_result sample_codec simple_storage_abi [call_get, call_set] 1
        ([response_get, response_set] ! 1) = Inr ([display_get, display_set] ! 1)
   \<and> handleFunctionCalls_settle sample_codec simple_storage_abi [call_get, call_set]
        (ExecResolved [response_get, response_set]) deployed_page =
      deployed_page\<lparr>result := [display_get, display_set]\<rparr>"
proof -
  have f: "decode_result sample_codec simple_storage_abi [call_get, call_set] 0
      ([response_empty, response_set] ! 0) = Inl (CodecError DecodeFailure)"
    by (simp add: decode_result_def sample_codec_def simple_storage_abi_def call_get_def
        response_empty_def)
  have g0: "decode_result sample_codec simple_storage_abi [call_get, call_set] 0
        ([response_get, response_set] ! 0) = Inr ([display_get, display_set] ! 0)"
    by (simp add: decode_result_def sample_codec_def simple_storage_abi_def call_get_def
        response_get_def display_get_def)
  have g1: "decode_result sample_codec simple_storage_abi [call_get, call_set] 1
        ([response_get, response_set] ! 1) = Inr ([display_get, display_set] ! 1)"
    by (simp add: decode_result_def sample_codec_def simple_storage_abi_def call_set_def
        response_set_def display_set_def)
  have all: "\<forall>j<length [response_get, response_set].
      decode_result sample_codec simple_storage_abi [call_get, call_set] j
        ([response_get, response_set] ! j) = Inr ([display_get, display_set] ! j)"
    using g0 g1 by (simp add: less_Suc_eq)
  have "result (handleFunctionCalls_settle sample_codec simple_storage_abi [call_get, call_set]
        (ExecResolved [response_empty, response_set]) deployed_page) = result deployed_page"
    using decode_batch_all_or_nothing
      [where C = sample_codec and a = simple_storage_abi and calls = "[call_get, call_set]"
         and results = "[response_empty, response_set]" and j = 0
         and e = "CodecError DecodeFailure" and s = deployed_page
         and outs = "[]" and r = response_empty] f
    by simp
  moreover have "handleFunctionCalls_settle sample_codec simple_storage_abi [call_get, call_set]
        (ExecResolved [response_get, response_set]) deployed_page =
      deployed_page\<lparr>result := [display_get, display_set]\<rparr>"
    using decode_batch_all_or_nothing
      [where C = sample_codec and a = simple_storage_abi and calls = "[call_get, call_set]"
         and results = "[response_get, response_set]" and outs = "[display_get, display_set]"
         and s = deployed_page and j = 0 and e = TypeError and r = response_get] all
    by simp
  ultimately show ?thesis using f g0 g1 by simp
qed

text \<open>
  Claim C3, as stated, fails on a response that carries one log whose topic belongs to no
  event of the interface: the decoder rejects the log, the batch is dropped, and the
  result list holds nothing for the call, the raw log included. Without an interface the
  handler returns at once and decodes nothing.
\<close>

theorem unmatched_log_counterexample:
  "decodeEventLog sample_codec simple_storage_abi (log_data foreign_log) (topics foreign_log) =
     Inl DecodeFailure
   \<and> result (handleFunctionCalls_settle sample_codec simple_storage_abi [call_set]
        (ExecResolved [response_foreign_log]) compiled_page) = []
   \<and> console (handleFunctionCalls_settle sample_codec simple_storage_abi [call_set]
        (ExecResolved [response_foreign_log]) compiled_page) =
       [ConsoleError ''Execution error:'' (CodecError DecodeFailure)]
   \<and> handleFunctionCalls_start sample_codec [call_set] sample_page = (Skipped, sample_page)"
  by (simp add: handleFunctionCalls_settle_def handleFunctionCalls_start_def decode_result_def
      sample_codec_def simple_storage_abi_def call_set_def response_foreign_log_def
      foreign_log_def compiled_page_def sample_page_def initial_page_def)

text \<open>
  Claim C3, amended. When a batch is committed, each result holds, for every raw log of
  its response and in the same order, the decoded log the decoder returned for the log's
  data and topics, with the arguments in the shape the decoder gave them; its raw-log
  field is absent, and ResultDisplay shows the decoded logs only. A log that the decoder
  rejects, as one that matches no event, makes the whole batch fail: the held result
  list is left as it was and no raw record is passed on. With an empty interface the
  handler returns before anything is encoded or decoded.
\<close>

theorem logs_decoded_or_batch_dropped:
  "(decode_results C a calls 0 results = Inr outs \<longrightarrow>
      handleFunctionCalls_settle C a calls (ExecResolved results) s = s\<lparr>result := outs\<rparr>
      \<and> length outs = length results
      \<and> (\<forall>j<length results. \<exists>ds.
            logs (outs ! j) = Some ds \<and> rawLogs (outs ! j) = None
            \<and> length ds = length (exec_logs (results ! j))
            \<and> (\<forall>k<length ds.
                  decodeEventLog C a (log_data (exec_logs (results ! j) ! k))
                    (topics (exec_logs (results ! j) ! k)) = Inr (ds ! k))
            \<and> ResultDisplay_logs C (outs ! j) =
                Inr (map (\<lambda>l. DecodedView (eventName l) (args_text C (event_args l))) ds)))
   \<and> (r \<in> set results \<and> l \<in> set (exec_logs r) \<and>
      decodeEventLog C a (log_data l) (topics l) = Inl e \<longrightarrow>
        result (handleFunctionCalls_settle C a calls (ExecResolved results) s) = result s)
   \<and> (abi s = [] \<longrightarrow> handleFunctionCalls_start C calls s = (Skipped, s))"
proof (intro conjI impI allI)
  assume ok: "decode_results C a calls 0 results = Inr outs"
  show "handleFunctionCalls_settle C a calls (ExecResolved results) s = s\<lparr>result := outs\<rparr>"
    using ok by (rule settle_committed)
  from ok have len: "length outs = length results"
    and each: "\<forall>j<length results. decode_result C a calls (0 + j) (results ! j) = Inr (outs ! j)"
    using decode_results_Inr_iff [of C a calls 0 results outs] by blast+
  show "length outs = length results" by (rule len)
  fix j
  assume "j < length results"
  with each have "decode_result C a calls j (results ! j) = Inr (outs ! j)" by simp
  from decode_result_Inr_logs [OF this] obtain ds
    where ds: "logs (outs ! j) = Some ds" "rawLogs (outs ! j) = None"
      and dl: "decode_logs C a (exec_logs (results ! j)) = Inr ds"
    by blast
  from dl have "length ds = length (exec_logs (results ! j))"
    and "\<forall>k<length ds.
           decodeEventLog C a (log_data (exec_logs (results ! j) ! k))
             (topics (exec_logs (results ! j) ! k)) = Inr (ds ! k)"
    using decode_logs_Inr_iff [of C a "exec_logs (results ! j)" ds] by auto
  moreover have "ResultDisplay_logs C (outs ! j) =
      Inr (map (\<lambda>l. DecodedView (eventName l) (args_text C (event_args l))) ds)"
    using ds by (simp add: ResultDisplay_logs_def)
  ultimately show "\<exists>ds.
            logs (outs ! j) = Some ds \<and> rawLogs (outs ! j) = None
            \<and> length ds = length (exec_logs (results ! j))
            \<and> (\<forall>k<length ds.
                  decodeEventLog C a (log_data (exec_logs (results ! j) ! k))
                    (topics (exec_logs (results ! j) ! k)) = Inr (ds ! k))
            \<and> ResultDisplay_logs C (outs ! j) =
                Inr (map (\<lambda>l. DecodedView (eventName l) (args_text C (event_args l))) ds)"
    using ds by blast
next
  assume h: "r \<in> set results \<and> l \<in> set (exec_logs r) \<and>
      decodeEventLog C a (log_data l) (topics l) = Inl e"
  then obtain j where j: "j < length results" "results ! j = r"
    by (auto simp: in_set_conv_nth)
  from h obtain e1 where "decode_result C a calls (0 + j) r = Inl e1"
    using decode_result_log_failure [of l r C a e calls "0 + j"] by blast
  with j obtain e2 where "decode_results C a calls 0 results = Inl e2"
    using decode_results_failure [of j results C a calls 0 e1] by auto
  from settle_dropped [OF this, of s]
  show "result (handleFunctionCalls_settle C a calls (ExecResolved results) s) = result s"
    by simp
next
  assume "abi s = []"
  then show "handleFunctionCalls_start C calls s = (Skipped, s)"
    by (simp add: handleFunctionCalls_start_def)
qed

theorem logs_decoded_or_batch_dropped_witness:
  "decode_results sample_codec simple_storage_abi [call_set] 0 [response_set] = Inr [display_set]
   \<and> ResultDisplay_logs sample_codec display_set = Inr [DecodedView ''StoredDataUpdated'' ''0x01'']
   \<and> response_foreign_log \<in> set [response_foreign_log]
   \<and> foreign_log \<in> set (exec_logs response_foreign_log)
   \<and> decodeEventLog sample_codec simple_storage_abi (log_data foreign_log) (topics foreign_log) =
       Inl DecodeFailure
   \<and> result (handleFunctionCalls_settle sample_codec simple_storage_abi [call_set]
        (ExecResolved [response_foreign_log]) deployed_page) = result deployed_page
   \<and> abi sample_page = []
   \<and> handleFunctionCalls_start sample_codec [call_set] sample_page = (Skipped, sample_page)"
proof -
  have ok: "decode_results sample_codec simple_storage_abi [call_set] 0 [response_set] =
      Inr [display_set]"
    by (simp add: decode_result_def sample_codec_def simple_storage_abi_def call_set_def
        response_set_def display_set_def)
  have mem: "response_foreign_log \<in> set [response_foreign_log]"
    "foreign_log \<in> set (exec_logs response_foreign_log)"
    by (simp_all add: response_foreign_log_def)
  have bad: "decodeEventLog sample_codec simple_storage_abi (log_data foreign_log)
      (topics foreign_log) = Inl DecodeFailure"
    by (simp add: sample_codec_def simple_storage_abi_def foreign_log_def)
  have empty: "abi sample_page = []"
    by (simp add: sample_page_def initial_page_def)
  note thm1 = logs_decoded_or_batch_dropped
      [where C = sample_codec and a = simple_storage_abi and calls = "[call_set]"
         and results = "[response_set]" and outs = "[display_set]" and s = sample_page]
  note thm2 = logs_decoded_or_batch_dropped
      [where C = sample_codec and a = simple_storage_abi and calls = "[call_set]"
         and results = "[response_foreign_log]" and r = response_foreign_log
         and l = foreign_log and e = DecodeFailure and s = deployed_page]
  have "ResultDisplay_logs sample_codec display_set =
      Inr [DecodedView ''StoredDataUpdated'' ''0x01'']"
    by (simp add: ResultDisplay_logs_def display_set_def args_text_def sample_codec_def)
  moreover have "result (handleFunctionCalls_settle sample_codec simple_storage_abi [call_set]
        (ExecResolved [response_foreign_log]) deployed_page) = result deployed_page"
    using thm2 mem bad by blast
  moreover have "handleFunctionCalls_start sample_codec [call_set] sample_page =
      (Skipped, sample_page)"
    using thm1 empty by blast
  ultimately show ?thesis using ok mem bad empty by simp
qed

section \<open>The encoding loop\<close>

lemma encode_calls_failure:
  assumes "c \<in> set calls" and "encodeFunctionData C a (name c) (args c) = Inl e"
  shows "\<exists>e' c'. c' \<in> set calls \<and> encodeFunctionData C a (name c') (args c') = Inl e' \<and>
           encode_calls C a calls = Inl e'"
  using assms
proof (induction calls)
  case Nil
  then show ?case by simp
next
  case (Cons x xs)
  show ?case
  proof (cases "encodeFunctionData C a (name x) (args x)")
    case (Inl e0)
    then have "encode_calls C a (x # xs) = Inl e0" by simp
    with Inl show ?thesis by (meson list.set_intros(1))
  next
    case (Inr cd)
    with Cons.prems have "c \<in> set xs" by auto
    from Cons.IH [OF this Cons.prems(2)] obtain e' c'
      where "c' \<in> set xs" "encodeFunctionData C a (name c') (args c') = Inl e'"
        "encode_calls C a xs = Inl e'" by blast
    then show ?thesis using Inr by (auto intro!: exI [of _ e'] exI [of _ c'])
  qed
qed

text \<open>
  Claim C7. When the encoder rejects a call of the batch (with \<open>UnknownFunction\<close>,
  \<open>ArgumentEncodingError\<close> or any other of its errors), the handler ends with that
  error as an uncaught exception before any request is posted. All that happens to the
  system is that the console receives the handler's opening line and the report of the
  uncaught error: the result list and every other cell of the page, and the requests in
  flight, are as before, so nothing is shown for the call.
\<close>

theorem encoder_failure_only_logged:
  assumes "abi (page_of S) \<noteq> []"
    and "c \<in> set parsedCalls"
    and "encodeFunctionData C (abi (page_of S)) (name c) (args c) = Inl e"
  shows "\<exists>e' c'. c' \<in> set parsedCalls
           \<and> encodeFunctionData C (abi (page_of S)) (name c') (args c') = Inl e'
           \<and> (parsedCalls = [c] \<longrightarrow> e' = e)
           \<and> handleFunctionCalls_start C parsedCalls (page_of S) =
               (Uncaught (CodecError e'),
                (page_of S)\<lparr>console := console (page_of S) @
                   [ConsoleLog ''in handle function calls'']\<rparr>)
           \<and> step C (HandleFunctionCalls parsedCalls) S =
               S\<lparr>page_of := (page_of S)\<lparr>console := console (page_of S) @
                   [ConsoleLog ''in handle function calls'',
                    ConsoleError ''Uncaught (in promise)'' (CodecError e')]\<rparr>\<rparr>
           \<and> result (page_of (step C (HandleFunctionCalls parsedCalls) S)) = result (page_of S)
           \<and> exec_posted (step C (HandleFunctionCalls parsedCalls) S) = exec_posted S"
proof -
  from encode_calls_failure [OF assms(2,3)] obtain e' c'
    where c': "c' \<in> set parsedCalls"
      and enc: "encodeFunctionData C (abi (page_of S)) (name c') (args c') = Inl e'"
      and all: "encode_calls C (abi (page_of S)) parsedCalls = Inl e'"
    by blast
  have single: "parsedCalls = [c] \<longrightarrow> e' = e"
    using all assms(3) by auto
  have start: "handleFunctionCalls_start C parsedCalls (page_of S) =
               (Uncaught (CodecError e'),
                (page_of S)\<lparr>console := console (page_of S) @
                   [ConsoleLog ''in handle function calls'']\<rparr>)"
    using assms(1) all by (simp add: handleFunctionCalls_start_def)
  have st: "step C (HandleFunctionCalls parsedCalls) S =
               S\<lparr>page_of := (page_of S)\<lparr>console := console (page_of S) @
                   [ConsoleLog ''in handle function calls'',
                    ConsoleError ''Uncaught (in promise)'' (CodecError e')]\<rparr>\<rparr>"
    using start by (simp add: step_def report_unhandled_def)
  have "result (page_of (step C (HandleFunctionCalls parsedCalls) S)) = result (page_of S)"
    and "exec_posted (step C (HandleFunctionCalls parsedCalls) S) = exec_posted S"
    unfolding st by simp_all
  with c' enc single start st show ?thesis by blast
qed

theorem encoder_failure_only_logged_witness:
  "abi (page_of compiled_system) \<noteq> []
   \<and> call_unknown \<in> set [call_get, call_unknown]
   \<and> encodeFunctionData sample_codec (abi (page_of compiled_system)) (name call_unknown)
        (args call_unknown) = Inl UnknownFunction
   \<and> encodeFunctionData sample_codec (abi (page_of compiled_system)) ''set'' [] =
       Inl ArgumentEncodingError
   \<and> result (page_of (step sample_codec (HandleFunctionCalls [call_get, call_unknown])
        compiled_system)) = result (page_of compiled_system)
   \<and> exec_posted (step sample_codec (HandleFunctionCalls [call_get, call_unknown])
        compiled_system) = exec_posted compiled_system
   \<and> console (page_of (step sample_codec (HandleFunctionCalls [call_get, call_unknown])
        compiled_system)) =
       [ConsoleLog ''in handle function calls'',
        ConsoleError ''Uncaught (in promise)'' (CodecError UnknownFunction)]"
proof -
  have a: "abi (page_of compiled_system) \<noteq> []"
    by (simp add: compiled_system_def compiled_page_def simple_storage_abi_def)
  have m: "call_unknown \<in> set [call_get, call_unknown]" by simp
  have u: "encodeFunctionData sample_codec (abi (page_of compiled_system)) (name call_unknown)
        (args call_unknown) = Inl UnknownFunction"
    by (simp add: compiled_system_def compiled_page_def simple_storage_abi_def
        sample_codec_def call_unknown_def)
  have ar: "encodeFunctionData sample_codec (abi (page_of compiled_system)) ''set'' [] =
       Inl ArgumentEncodingError"
    by (simp add: compiled_system_def compiled_page_def simple_storage_abi_def sample_codec_def)
  from encoder_failure_only_logged [OF a m u]
  have "result (page_of (step sample_codec (HandleFunctionCalls [call_get, call_unknown])
        compiled_system)) = result (page_of compiled_system)"
    and "exec_posted (step sample_codec (HandleFunctionCalls [call_get, call_unknown])
        compiled_system) = exec_posted compiled_system"
    by blast+
  moreover have "console (page_of (step sample_codec (HandleFunctionCalls [call_get, call_unknown])
        compiled_system)) =
       [ConsoleLog ''in handle function calls'',
        ConsoleError ''Uncaught (in promise)'' (CodecError UnknownFunction)]"
    by (simp add: step_def handleFunctionCalls_start_def report_unhandled_def
        compiled_system_def compiled_page_def sample_page_def initial_page_def
        simple_storage_abi_def sample_codec_def call_unknown_def call_get_def)
  ultimately show ?thesis using a m u ar by simp
qed

section \<open>When the execution effect runs\<close>

lemma functionCalls_compile_catch:
  "functionCalls (compile_catch t s) = functionCalls s"
  "functionCalls_ref (compile_catch t s) = functionCalls_ref s"
  by (simp_all add: compile_catch_def report_unhandled_def Let_def
      split: thrown.splits option.splits error_data.splits)

lemma functionCalls_compileSolidity_settle:
  "functionCalls (compileSolidity_settle C outcome s) = functionCalls s"
  "functionCalls_ref (compileSolidity_settle C outcome s) = functionCalls_ref s"
  by (simp_all add: compileSolidity_settle_def functionCalls_compile_catch Let_def
      split: compile_outcome.splits option.splits)

lemma functionCalls_start:
  "functionCalls (snd (handleFunctionCalls_start C calls s)) = functionCalls s"
  "functionCalls_ref (snd (handleFunctionCalls_start C calls s)) = functionCalls_ref s"
  by (simp_all add: handleFunctionCalls_start_def Let_def split: sum.splits)

lemma functionCalls_settle:
  "functionCalls (handleFunctionCalls_settle C a calls outcome s) = functionCalls s"
  "functionCalls_ref (handleFunctionCalls_settle C a calls outcome s) = functionCalls_ref s"
  by (simp_all add: handleFunctionCalls_settle_def split: sum.splits exec_outcome.splits)

lemma write_fresh_array:
  "functionCalls (apply_write C w s) = functionCalls s \<or>
   functionCalls_ref (apply_write C w s) = Suc (functionCalls_ref s)"
  by (cases w)
     (simp_all add: apply_write_def addFunctionCall_def handleFunctionCallsChange_def
        functionCalls_compileSolidity_settle functionCalls_start functionCalls_settle)

lemma write_keeps_array:
  "\<not> call_list_write w \<Longrightarrow>
     functionCalls_ref (apply_write C w s) = functionCalls_ref s \<and>
     functionCalls (apply_write C w s) = functionCalls s"
  by (cases w)
     (simp_all add: apply_write_def
        functionCalls_compileSolidity_settle functionCalls_start functionCalls_settle)

lemma bytecode_start:
  "bytecode (snd (handleFunctionCalls_start C calls s)) = bytecode s"
  by (simp add: handleFunctionCalls_start_def Let_def split: sum.splits)

lemma bytecode_settle:
  "bytecode (handleFunctionCalls_settle C a calls outcome s) = bytecode s"
  by (simp add: handleFunctionCalls_settle_def split: sum.splits exec_outcome.splits)

lemma write_keeps_bytecode:
  "\<not> compile_write w \<Longrightarrow> bytecode (apply_write C w s) = bytecode s"
  by (cases w)
     (simp_all add: apply_write_def addFunctionCall_def handleFunctionCallsChange_def
        bytecode_start bytecode_settle)

lemma lane_None_same_deps:
  "bytecode cur = bytecode prev \<Longrightarrow> functionCalls_ref cur = functionCalls_ref prev \<Longrightarrow>
     execution_lane prev cur = None"
  by (simp add: execution_lane_def deps_changed_def)

text \<open>
  Claim C9. After a write to the page the second effect is looked at again. It hands a
  batch to the debounced handler only when the write changed the bytecode or installed a
  call list (every change of the call list's content does), and then exactly when the
  bytecode is not empty and the call list yields at least one parsed call; the batch is
  the parsed call list. A write that leaves the bytecode as it was and is not a
  call-list write (the source text, the start of a handler run, a result update, a
  compile response that brings the same bytecode) hands over nothing, and neither does
  a render without any write. With an empty bytecode, or with a call list that yields no
  parsed call, nothing is handed over whatever changed.
\<close>

theorem execution_lane_trigger:
  "(execution_lane prev cur = Some calls \<longrightarrow>
      (bytecode prev \<noteq> bytecode cur \<or> functionCalls_ref prev \<noteq> functionCalls_ref cur) \<and>
      bytecode cur \<noteq> [] \<and> calls \<noteq> [] \<and> calls = parse_calls (functionCalls cur))
   \<and> (bytecode cur = [] \<or> parse_calls (functionCalls cur) = [] \<longrightarrow>
        execution_lane prev cur = None)
   \<and> ((bytecode prev \<noteq> bytecode cur \<or> functionCalls_ref prev \<noteq> functionCalls_ref cur) \<and>
      bytecode cur \<noteq> [] \<and> parse_calls (functionCalls cur) \<noteq> [] \<longrightarrow>
        execution_lane prev cur = Some (parse_calls (functionCalls cur)))
   \<and> (bytecode cur = bytecode prev \<and> functionCalls_ref cur = functionCalls_ref prev \<longrightarrow>
        execution_lane prev cur = None)
   \<and> (bytecode (apply_write C w s) \<noteq> bytecode s \<or>
      functionCalls (apply_write C w s) \<noteq> functionCalls s \<longrightarrow>
        execution_lane s (apply_write C w s) = execution_effect (apply_write C w s))
   \<and> (bytecode (apply_write C w s) \<noteq> bytecode s \<longrightarrow> compile_write w)
   \<and> (functionCalls (apply_write C w s) \<noteq> functionCalls s \<longrightarrow> call_list_write w)
   \<and> (execution_lane s (apply_write C w s) = Some calls \<longrightarrow>
        bytecode (apply_write C w s) \<noteq> bytecode s \<or> call_list_write w)
   \<and> (bytecode (apply_write C w s) = bytecode s \<and> \<not> call_list_write w \<longrightarrow>
        execution_lane s (apply_write C w s) = None)
   \<and> execution_lane s (apply_write C (WriteSolidityCode src) s) = None
   \<and> execution_lane s (apply_write C (WriteExecStarted parsedCalls) s) = None
   \<and> execution_lane s (apply_write C (WriteExecSettled iface parsedCalls xoutcome) s) = None
   \<and> execution_lane s s = None"
proof (intro conjI impI)
  assume "execution_lane prev cur = Some calls"
  then show "bytecode prev \<noteq> bytecode cur \<or> functionCalls_ref prev \<noteq> functionCalls_ref cur"
    and "bytecode cur \<noteq> []" and "calls \<noteq> []"
    and "calls = parse_calls (functionCalls cur)"
    by (auto simp: execution_lane_def execution_effect_def deps_changed_def Let_def
        split: if_splits)
next
  assume "bytecode cur = [] \<or> parse_calls (functionCalls cur) = []"
  then show "execution_lane prev cur = None"
    by (auto simp: execution_lane_def execution_effect_def Let_def)
next
  assume "(bytecode prev \<noteq> bytecode cur \<or> functionCalls_ref prev \<noteq> functionCalls_ref cur) \<and>
      bytecode cur \<noteq> [] \<and> parse_calls (functionCalls cur) \<noteq> []"
  then show "execution_lane prev cur = Some (parse_calls (functionCalls cur))"
    by (auto simp: execution_lane_def execution_effect_def deps_changed_def Let_def)
next
  assume "bytecode cur = bytecode prev \<and> functionCalls_ref cur = functionCalls_ref prev"
  then show "execution_lane prev cur = None"
    by (simp add: lane_None_same_deps)
next
  assume "bytecode (apply_write C w s) \<noteq> bytecode s \<or>
      functionCalls (apply_write C w s) \<noteq> functionCalls s"
  then have "deps_changed s (apply_write C w s)"
    using write_fresh_array [of C w s] by (auto simp: deps_changed_def)
  then show "execution_lane s (apply_write C w s) = execution_effect (apply_write C w s)"
    by (simp add: execution_lane_def)
next
  assume "bytecode (apply_write C w s) \<noteq> bytecode s"
  then show "compile_write w"
    using write_keeps_bytecode [of w C s] by blast
next
  assume "functionCalls (apply_write C w s) \<noteq> functionCalls s"
  then show "call_list_write w"
    using write_keeps_array [of w C s] by blast
next
  assume h: "execution_lane s (apply_write C w s) = Some calls"
  show "bytecode (apply_write C w s) \<noteq> bytecode s \<or> call_list_write w"
  proof (rule ccontr)
    assume "\<not> (bytecode (apply_write C w s) \<noteq> bytecode s \<or> call_list_write w)"
    then have "execution_lane s (apply_write C w s) = None"
      using write_keeps_array [of w C s] by (simp add: lane_None_same_deps)
    with h show False by simp
  qed
next
  assume "bytecode (apply_write C w s) = bytecode s \<and> \<not> call_list_write w"
  then show "execution_lane s (apply_write C w s) = None"
    using write_keeps_array [of w C s] by (simp add: lane_None_same_deps)
next
  show "execution_lane s (apply_write C (WriteSolidityCode src) s) = None"
    by (rule lane_None_same_deps) (simp_all add: apply_write_def)
  show "execution_lane s (apply_write C (WriteExecStarted parsedCalls) s) = None"
    by (rule lane_None_same_deps) (simp_all add: apply_write_def bytecode_start functionCalls_start)
  show "execution_lane s (apply_write C (WriteExecSettled iface parsedCalls xoutcome) s) = None"
    by (rule lane_None_same_deps)
       (simp_all add: apply_write_def bytecode_settle functionCalls_settle)
  show "execution_lane s s = None"
    by (rule lane_None_same_deps) simp_all
qed

theorem execution_lane_trigger_witness:
  "functionCalls
     (apply_write sample_codec (WriteFunctionCallsChange Production (Some ''set(2)'') 1)
        deployed_page) = [''get()'', ''set(2)'', ''get()'']
   \<and> execution_lane deployed_page
        (apply_write sample_codec (WriteFunctionCallsChange Production (Some ''set(2)'') 1)
           deployed_page) =
      Some [\<lparr>name = ''get'', args = []\<rparr>, \<lparr>name = ''set'', args = [''2'']\<rparr>,
            \<lparr>name = ''get'', args = []\<rparr>]
   \<and> bytecode (apply_write sample_codec (WriteCompileSettled (Resolved two_units)) sample_page) =
       ''0x6002''
   \<and> execution_lane sample_page
        (apply_write sample_codec (WriteCompileSettled (Resolved two_units)) sample_page) =
      Some (parse_calls [''get()'', ''set(1)'', ''get()'', ''getBlockNumber()''])
   \<and> parse_calls [''foobar''] = []
   \<and> execution_lane deployed_page
        (apply_write sample_codec (WriteFunctionCallsChange Production None 0)
           (deployed_page\<lparr>functionCalls := [''get()'', ''foobar'']\<rparr>)) = None
   \<and> execution_lane deployed_page sample_page = None
   \<and> bytecode (apply_write sample_codec (WriteCompileSettled (Resolved two_units)) deployed_page) =
       bytecode deployed_page
   \<and> execution_lane deployed_page
        (apply_write sample_codec (WriteCompileSettled (Resolved two_units)) deployed_page) = None
   \<and> result (apply_write sample_codec
        (WriteExecSettled simple_storage_abi [call_get] (ExecResolved [response_get]))
        deployed_page) = [display_get]
   \<and> execution_lane deployed_page
        (apply_write sample_codec
           (WriteExecSettled simple_storage_abi [call_get] (ExecResolved [response_get]))
           deployed_page) = None
   \<and> execution_lane deployed_page
        (apply_write sample_codec (WriteSolidityCode ''contract Empty {}'') deployed_page) = None
   \<and> execution_lane deployed_page
        (apply_write sample_codec (WriteExecStarted [call_get]) deployed_page) = None
   \<and> execution_lane deployed_page deployed_page = None"
proof -
  let ?edit = "apply_write sample_codec (WriteFunctionCallsChange Production (Some ''set(2)'') 1)
      deployed_page"
  let ?compiled = "apply_write sample_codec (WriteCompileSettled (Resolved two_units)) sample_page"
  let ?deleted = "apply_write sample_codec (WriteFunctionCallsChange Production None 0)
           (deployed_page\<lparr>functionCalls := [''get()'', ''foobar'']\<rparr>)"
  let ?same = "apply_write sample_codec (WriteCompileSettled (Resolved two_units)) deployed_page"
  let ?shown = "apply_write sample_codec
        (WriteExecSettled simple_storage_abi [call_get] (ExecResolved [response_get]))
        deployed_page"
  have fc: "functionCalls ?edit = [''get()'', ''set(2)'', ''get()'']"
    by (simp add: apply_write_def handleFunctionCallsChange_def change_updater_def
        assign_at_def deployed_page_def)
  have bc: "bytecode ?edit = ''0x6002''"
    by (simp add: apply_write_def handleFunctionCallsChange_def deployed_page_def)
  have m1: "call_match ''get()'' = Some (''get'', [])"
    using call_match_exact [of "''get''" "[]"] by (simp add: is_word_char_def)
  have m2: "call_match ''set(2)'' = Some (''set'', ''2'')"
    using call_match_exact [of "''set''" "''2''"]
    by (simp add: is_word_char_def is_line_terminator_def)
  have pc: "parse_calls [''get()'', ''set(2)'', ''get()''] =
      [\<lparr>name = ''get'', args = []\<rparr>, \<lparr>name = ''set'', args = [''2'']\<rparr>, \<lparr>name = ''get'', args = []\<rparr>]"
    using m1 m2
    by (simp add: parse_calls_def push_line_def call_args_def trim_def is_white_space_def)
  have e1: "execution_effect ?edit =
       Some [\<lparr>name = ''get'', args = []\<rparr>, \<lparr>name = ''set'', args = [''2'']\<rparr>,
            \<lparr>name = ''get'', args = []\<rparr>]"
    using fc bc pc by (simp add: execution_effect_def)
  note at_edit = execution_lane_trigger
      [where C = sample_codec and w = "WriteFunctionCallsChange Production (Some ''set(2)'') 1"
         and s = deployed_page and prev = deployed_page and cur = deployed_page
         and calls = "[]" and src = "''contract Empty {}''" and parsedCalls = "[call_get]"
         and iface = simple_storage_abi and xoutcome = "ExecResolved [response_get]"]
  have "functionCalls ?edit \<noteq> functionCalls deployed_page"
    using fc by (simp add: deployed_page_def)
  then have l1: "execution_lane deployed_page ?edit = execution_effect ?edit"
    using at_edit by blast
  have b2: "bytecode ?compiled = ''0x6002''"
    by (simp add: apply_write_def compileSolidity_settle_def two_units_def sample_codec_def)
  have f2: "functionCalls ?compiled = [''get()'', ''set(1)'', ''get()'', ''getBlockNumber()'']"
    by (simp add: apply_write_def functionCalls_compileSolidity_settle sample_page_def
        initial_page_def)
  have p2: "parse_calls [''get()'', ''set(1)'', ''get()'', ''getBlockNumber()''] \<noteq> []"
    using m1 by (simp add: parse_calls_def push_line_def foldl_push_line split: option.splits)
  have "bytecode ?compiled \<noteq> bytecode sample_page"
    using b2 by (simp add: sample_page_def initial_page_def)
  then have "execution_lane sample_page ?compiled = execution_effect ?compiled"
    using execution_lane_trigger
      [where C = sample_codec and w = "WriteCompileSettled (Resolved two_units)"
         and s = sample_page and prev = sample_page and cur = sample_page and calls = "[]"
         and src = "[]" and parsedCalls = "[]" and iface = "[]"
         and xoutcome = "ExecResolved []"]
    by blast
  then have l2: "execution_lane sample_page ?compiled =
      Some (parse_calls [''get()'', ''set(1)'', ''get()'', ''getBlockNumber()''])"
    using b2 f2 p2 by (simp add: execution_effect_def Let_def)
  have p3: "parse_calls [''foobar''] = []"
    by (simp add: parse_calls_def push_line_def call_match_at_def is_word_char_def)
  have "functionCalls ?deleted = [''foobar'']"
    by (simp add: apply_write_def handleFunctionCallsChange_def change_updater_def splice1_def
        deployed_page_def)
  then have "parse_calls (functionCalls ?deleted) = []"
    using p3 by simp
  then have l3: "execution_lane deployed_page ?deleted = None"
    using execution_lane_trigger
      [where prev = deployed_page and cur = ?deleted and C = sample_codec
         and w = WriteAddFunctionCall and s = sample_page and calls = "[]"
         and src = "[]" and parsedCalls = "[]" and iface = "[]"
         and xoutcome = "ExecResolved []"]
    by blast
  have "bytecode sample_page = []"
    by (simp add: sample_page_def initial_page_def)
  then have l4: "execution_lane deployed_page sample_page = None"
    using execution_lane_trigger
      [where prev = deployed_page and cur = sample_page and C = sample_codec
         and w = WriteAddFunctionCall and s = sample_page and calls = "[]"
         and src = "[]" and parsedCalls = "[]" and iface = "[]"
         and xoutcome = "ExecResolved []"]
    by blast
  have b5: "bytecode ?same = bytecode deployed_page"
    by (simp add: apply_write_def compileSolidity_settle_def two_units_def sample_codec_def
        deployed_page_def)
  have nw: "\<not> call_list_write (WriteCompileSettled (Resolved two_units) ::
      (abi_item, unit) page_write)"
    by simp
  have l5: "execution_lane deployed_page ?same = None"
    using execution_lane_trigger
      [where C = sample_codec and w = "WriteCompileSettled (Resolved two_units)"
         and s = deployed_page and prev = deployed_page and cur = deployed_page
         and calls = "[]" and src = "[]" and parsedCalls = "[]" and iface = "[]"
         and xoutcome = "ExecResolved []"] b5 nw
    by blast
  have r6: "result ?shown = [display_get]"
    by (simp add: apply_write_def handleFunctionCalls_settle_def decode_result_def
        sample_codec_def simple_storage_abi_def call_get_def response_get_def display_get_def)
  have l6: "execution_lane deployed_page ?shown = None"
    and l7: "execution_lane deployed_page
        (apply_write sample_codec (WriteSolidityCode ''contract Empty {}'') deployed_page) = None"
    and l8: "execution_lane deployed_page
        (apply_write sample_codec (WriteExecStarted [call_get]) deployed_page) = None"
    and l9: "execution_lane deployed_page deployed_page = None"
    using at_edit by blast+
  show ?thesis
    using fc l1 e1 b2 l2 p3 l3 l4 b5 l5 r6 l6 l7 l8 l9 by simp
qed

section \<open>Responses that arrive late\<close>

lemma compile_race_eq:
  "compile_race =
     \<lparr>page_of = sample_page\<lparr>solidityCode := ''contract Empty {}'', bytecode := ''0x6003'',
                            abi := [], compilationErrors := []\<rparr>,
      compile_timer = None,
      compile_posted = [updatedCode defaultSolidityCode, updatedCode ''contract Empty {}''],
      compile_settled = [1],
      exec_posted = [],
      exec_settled = []\<rparr>"
  by (simp add: compile_race_def run_def step_def mounted_def sample_page_def initial_page_def
      defaultSolidityCode_def compile_in_flight_def compileSolidity_settle_def unit_empty_def
      sample_codec_def)

lemma exec_race_eq:
  "exec_race =
     compiled_system
       \<lparr>page_of := compiled_page
          \<lparr>result := [display_set],
           console := [ConsoleLog ''in handle function calls'',
                       ConsoleLog ''in handle function calls'']\<rparr>,
        exec_posted :=
          [(simple_storage_abi, [call_get],
            \<lparr>req_bytecode = ''0x6002'',
             req_calls = [\<lparr>calldata = ''get'', value = ''0'', caller = zero_address\<rparr>]\<rparr>),
           (simple_storage_abi, [call_set],
            \<lparr>req_bytecode = ''0x6002'',
             req_calls = [\<lparr>calldata = ''set1'', value = ''0'', caller = zero_address\<rparr>]\<rparr>)],
        exec_settled := [1]\<rparr>"
  by (simp add: exec_race_def run_def step_def compiled_system_def compiled_page_def
      sample_page_def initial_page_def handleFunctionCalls_start_def
      handleFunctionCalls_settle_def decode_result_def exec_in_flight_def
      sample_codec_def simple_storage_abi_def call_get_def call_set_def response_set_def
      display_set_def)

text \<open>
  Claim C1, as stated, fails in both lanes. In the compile lane the first request is
  superseded by the second and still in flight when the response to the second has been
  applied; the late response to the first then replaces bytecode, interface and
  diagnostics. In the execution lane the late response to the first batch replaces the
  result list that the second batch had produced.
\<close>

theorem stale_response_counterexample:
  "compile_superseded 0 compile_race \<and> compile_in_flight 0 compile_race
   \<and> bytecode (page_of compile_race) = ''0x6003''
   \<and> abi (page_of compile_race) = []
   \<and> compilationErrors (page_of compile_race) = []
   \<and> bytecode (page_of (step sample_codec (CompileSettles 0 (Resolved two_units)) compile_race)) =
       ''0x6002''
   \<and> abi (page_of (step sample_codec (CompileSettles 0 (Resolved two_units)) compile_race)) =
       simple_storage_abi
   \<and> compilationErrors
       (page_of (step sample_codec (CompileSettles 0 (Resolved two_units)) compile_race)) =
       [warning_unused]
   \<and> exec_superseded 0 exec_race \<and> exec_in_flight 0 exec_race
   \<and> result (page_of exec_race) = [display_set]
   \<and> result (page_of (step sample_codec (ExecSettles 0 (ExecResolved [response_get])) exec_race)) =
       [display_get]"
proof -
  have c: "compile_superseded 0 compile_race \<and> compile_in_flight 0 compile_race
   \<and> bytecode (page_of compile_race) = ''0x6003''
   \<and> abi (page_of compile_race) = []
   \<and> compilationErrors (page_of compile_race) = []"
    by (simp add: compile_race_eq compile_superseded_def compile_in_flight_def)
  have c': "bytecode (page_of (step sample_codec (CompileSettles 0 (Resolved two_units)) compile_race)) =
       ''0x6002''
   \<and> abi (page_of (step sample_codec (CompileSettles 0 (Resolved two_units)) compile_race)) =
       simple_storage_abi
   \<and> compilationErrors
       (page_of (step sample_codec (CompileSettles 0 (Resolved two_units)) compile_race)) =
       [warning_unused]"
    by (simp add: compile_race_eq step_def compile_in_flight_def compileSolidity_settle_def
        two_units_def sample_codec_def)
  have x: "exec_superseded 0 exec_race \<and> exec_in_flight 0 exec_race
   \<and> result (page_of exec_race) = [display_set]"
    by (simp add: exec_race_eq exec_superseded_def exec_in_flight_def compiled_system_def)
  have x': "result (page_of (step sample_codec (ExecSettles 0 (ExecResolved [response_get])) exec_race)) =
       [display_get]"
    by (simp add: exec_race_eq step_def exec_in_flight_def compiled_system_def
        handleFunctionCalls_settle_def decode_result_def sample_codec_def
        simple_storage_abi_def call_get_def response_get_def display_get_def)
  from c c' x x' show ?thesis by simp
qed

text \<open>
  Claim C1, amended. In both lanes a response is applied when it arrives, whether or not a
  later request of the lane has been posted. A compile response that arrives for a
  request in flight runs the compile continuation on the page as it is then: a response
  with at least one unit and a description that parses replaces bytecode, interface and
  diagnostics. An execution response that arrives for a request in flight is decoded
  with the interface and the calls of its own request and, when it decodes, replaces the
  result list. What a later edit does cancel is a compile run whose timer has not fired:
  of two edits made before the timer fires, only the later text is posted.
\<close>

theorem responses_applied_on_arrival:
  "(compile_in_flight k S \<longrightarrow>
      page_of (step C (CompileSettles k outcome) S) = compileSolidity_settle C outcome (page_of S))
   \<and> (compile_in_flight k S \<and> data r \<noteq> [] \<and>
      JSON_parse C (contract_abi (last (data r))) = Some a \<longrightarrow>
        bytecode (page_of (step C (CompileSettles k (Resolved r)) S)) =
          contract_bytecode (last (data r))
        \<and> abi (page_of (step C (CompileSettles k (Resolved r)) S)) = a
        \<and> compilationErrors (page_of (step C (CompileSettles k (Resolved r)) S)) = errors r)
   \<and> (exec_in_flight k S \<and> exec_posted S ! k = (iface, calls, req) \<longrightarrow>
        page_of (step C (ExecSettles k xoutcome) S) =
          handleFunctionCalls_settle C iface calls xoutcome (page_of S))
   \<and> (exec_in_flight k S \<and> exec_posted S ! k = (iface, calls, req) \<and>
      decode_results C iface calls 0 results = Inr outs \<longrightarrow>
        result (page_of (step C (ExecSettles k (ExecResolved results)) S)) = outs)
   \<and> (srcB \<noteq> srcA \<longrightarrow>
        compile_posted
          (step C CompileTimerFires (step C (SetSolidityCode srcB) (step C (SetSolidityCode srcA) S))) =
        compile_posted S @ [updatedCode srcB])"
proof (intro conjI impI)
  assume "compile_in_flight k S"
  then show "page_of (step C (CompileSettles k outcome) S) =
      compileSolidity_settle C outcome (page_of S)"
    by (simp add: step_def)
next
  assume h: "compile_in_flight k S \<and> data r \<noteq> [] \<and>
      JSON_parse C (contract_abi (last (data r))) = Some a"
  then have "page_of (step C (CompileSettles k (Resolved r)) S) =
      (page_of S)\<lparr>bytecode := contract_bytecode (last (data r)), abi := a,
                  compilationErrors := errors r\<rparr>"
    by (simp add: step_def compileSolidity_settle_def)
  then show "bytecode (page_of (step C (CompileSettles k (Resolved r)) S)) =
          contract_bytecode (last (data r))"
    and "abi (page_of (step C (CompileSettles k (Resolved r)) S)) = a"
    and "compilationErrors (page_of (step C (CompileSettles k (Resolved r)) S)) = errors r"
    by simp_all
next
  assume "exec_in_flight k S \<and> exec_posted S ! k = (iface, calls, req)"
  then show "page_of (step C (ExecSettles k xoutcome) S) =
          handleFunctionCalls_settle C iface calls xoutcome (page_of S)"
    by (simp add: step_def)
next
  assume "exec_in_flight k S \<and> exec_posted S ! k = (iface, calls, req) \<and>
      decode_results C iface calls 0 results = Inr outs"
  then show "result (page_of (step C (ExecSettles k (ExecResolved results)) S)) = outs"
    by (simp add: step_def handleFunctionCalls_settle_def)
next
  assume "srcB \<noteq> srcA"
  then show "compile_posted
          (step C CompileTimerFires (step C (SetSolidityCode srcB) (step C (SetSolidityCode srcA) S))) =
        compile_posted S @ [updatedCode srcB]"
    by (auto simp: step_def)
qed

theorem responses_applied_on_arrival_witness:
  "compile_in_flight 0 compile_race \<and> compile_superseded 0 compile_race
   \<and> data two_units \<noteq> []
   \<and> JSON_parse sample_codec (contract_abi (last (data two_units))) = Some simple_storage_abi
   \<and> bytecode (page_of (step sample_codec (CompileSettles 0 (Resolved two_units)) compile_race)) =
       ''0x6002''
   \<and> exec_in_flight 0 exec_race \<and> exec_superseded 0 exec_race
   \<and> decode_results sample_codec simple_storage_abi [call_get] 0 [response_get] = Inr [display_get]
   \<and> result (page_of (step sample_codec (ExecSettles 0 (ExecResolved [response_get])) exec_race)) =
       [display_get]
   \<and> compile_posted
       (step sample_codec CompileTimerFires
          (step sample_codec (SetSolidityCode ''contract B {}'')
             (step sample_codec (SetSolidityCode ''contract A {}'') compiled_system))) =
       [updatedCode defaultSolidityCode, updatedCode ''contract B {}'']"
proof -
  have fl: "compile_in_flight 0 compile_race" "compile_superseded 0 compile_race"
    by (simp_all add: compile_race_eq compile_in_flight_def compile_superseded_def)
  have d: "data two_units \<noteq> []"
    "JSON_parse sample_codec (contract_abi (last (data two_units))) = Some simple_storage_abi"
    by (simp_all add: two_units_def sample_codec_def)
  have xf: "exec_in_flight 0 exec_race" "exec_superseded 0 exec_race"
    by (simp_all add: exec_race_eq exec_in_flight_def exec_superseded_def compiled_system_def)
  have nth: "exec_posted exec_race ! 0 =
      (simple_storage_abi, [call_get],
       \<lparr>req_bytecode = ''0x6002'',
        req_calls = [\<lparr>calldata = ''get'', value = ''0'', caller = zero_address\<rparr>]\<rparr>)"
    by (simp add: exec_race_eq)
  have dec: "decode_results sample_codec simple_storage_abi [call_get] 0 [response_get] =
      Inr [display_get]"
    by (simp add: decode_result_def sample_codec_def simple_storage_abi_def call_get_def
        response_get_def display_get_def)
  have ne: "''contract B {}'' \<noteq> ''contract A {}''" by simp
  note inst = responses_applied_on_arrival
      [where C = sample_codec and k = 0 and S = compile_race and r = two_units
         and a = simple_storage_abi and outcome = "Resolved two_units"
         and iface = "[]" and calls = "[]" and results = "[]" and outs = "[]"
         and xoutcome = "ExecResolved []" and srcA = "''contract A {}''"
         and srcB = "''contract B {}''"
         and req = "\<lparr>req_bytecode = [], req_calls = []\<rparr>"]
  note inst2 = responses_applied_on_arrival
      [where C = sample_codec and k = 0 and S = exec_race and r = two_units
         and a = simple_storage_abi and outcome = "Resolved two_units"
         and iface = simple_storage_abi and calls = "[call_get]" and results = "[response_get]"
         and outs = "[display_get]"
         and xoutcome = "ExecResolved [response_get]" and srcA = "''contract A {}''"
         and srcB = "''contract B {}''"
         and req = "\<lparr>req_bytecode = ''0x6002'',
            req_calls = [\<lparr>calldata = ''get'', value = ''0'', caller = zero_address\<rparr>]\<rparr>"]
  note inst3 = responses_applied_on_arrival
      [where C = sample_codec and k = 0 and S = compiled_system and r = two_units
         and a = simple_storage_abi and outcome = "Resolved two_units"
         and iface = "[]" and calls = "[]" and results = "[]" and outs = "[]"
         and xoutcome = "ExecResolved []" and srcA = "''contract A {}''"
         and srcB = "''contract B {}''"
         and req = "\<lparr>req_bytecode = [], req_calls = []\<rparr>"]
  have b: "bytecode (page_of (step sample_codec (CompileSettles 0 (Resolved two_units)) compile_race)) =
       contract_bytecode (last (data two_units))"
    using inst fl d by blast
  have x: "result (page_of (step sample_codec (ExecSettles 0 (ExecResolved [response_get])) exec_race)) =
       [display_get]"
    using inst2 xf nth dec by blast
  have p: "compile_posted
       (step sample_codec CompileTimerFires
          (step sample_codec (SetSolidityCode ''contract B {}'')
             (step sample_codec (SetSolidityCode ''contract A {}'') compiled_system))) =
       compile_posted compiled_system @ [updatedCode ''contract B {}'']"
    using inst3 ne by blast
  show ?thesis
    using fl d b xf dec x p by (simp add: two_units_def compiled_system_def)
qed

end
